theory Spec2Isabelle
  imports Main "HOL-Library.Word" "HOL-Library.Sublist"
begin

section \<open>The storage plugin registry of dlite (src/dlite-storage-plugins.c)\<close>

subsection \<open>Data model\<close>

text \<open>
  \<^verbatim>\<open>PluginInfo\<close> is declared in utils/plugin.h, which is not part of the sources at
  hand. The registry reads two of its parts: the search path (\<^verbatim>\<open>info->paths\<close>, an
  ordered sequence of directory names, duplicates allowed) and the table of registered
  plugins (name to descriptor, at most one entry per name, kept in registration order).
  A descriptor (\<^verbatim>\<open>const DLiteStoragePlugin *\<close>) is an opaque value of type \<open>'api\<close>.
\<close>

record 'api PluginInfo =
  paths :: "string list"
  apis :: "(string \<times> 'api) list"

text \<open>
  The calls into other modules whose order and number the specification speaks about
  are recorded in a log, in the order in which they are made.
\<close>

datatype event =
    E_plugin_info_create
  | E_atexit
  | E_add_dll_path
  | E_plugin_get_api string
  | E_pathshash
  | E_plugin_load_all

text \<open>
  The two file-level variables of the module, \<^verbatim>\<open>storage_plugin_info\<close> (initially
  \<^verbatim>\<open>NULL\<close>) and \<^verbatim>\<open>storage_plugin_path_hash\<close> (\<^verbatim>\<open>unsigned char[32]\<close>, zero
  initialised as every static array), together with the log of calls.
\<close>

record 'api globals =
  storage_plugin_info :: "'api PluginInfo option"
  storage_plugin_path_hash :: "8 word list"
  calls :: "event list"

definition initial_globals :: "'api globals" where
  "initial_globals =
     \<lparr>storage_plugin_info = None, storage_plugin_path_hash = replicate 32 0, calls = []\<rparr>"

text \<open>
  What the module reads from its surroundings during one call: whether the allocation in
  \<^verbatim>\<open>plugin_info_create\<close> succeeds, the directories named by the environment variable
  \<^verbatim>\<open>DLITE_STORAGE_PLUGIN_DIRS\<close>, the mode flag \<^verbatim>\<open>dlite_use_build_root()\<close>, the
  directory lists of config-paths.h (\<^verbatim>\<open>dlite_STORAGE_PLUGINS\<close> for the build tree,
  \<^verbatim>\<open>DLITE_STORAGE_PLUGIN_DIRS\<close> under \<^verbatim>\<open>dlite_root_get()\<close> for an installation,
  with the function that places a directory under a prefix),
  the digest function \<^verbatim>\<open>pathshash\<close> (\<open>None\<close> for its non-zero return), and the file
  system as the plugin loader sees it: the shared libraries of a directory in scan order,
  and the result of opening one and calling its entry symbol (\<open>None\<close> when the file
  cannot be opened, lacks the symbol or the probe fails; otherwise the self-reported
  driver name and the descriptor).
\<close>

record 'api env =
  alloc_ok :: bool
  envvar_dirs :: "string list"
  dlite_use_build_root :: bool
  dlite_STORAGE_PLUGINS :: "string list"
  DLITE_STORAGE_PLUGIN_DIRS :: "string list"
  dlite_root_get :: string
  under_prefix :: "string \<Rightarrow> string \<Rightarrow> string"
  pathshash :: "string list \<Rightarrow> 8 word list option"
  dir_files :: "string \<Rightarrow> string list"
  probe :: "string \<Rightarrow> (string \<times> 'api) option"

text \<open>
  Recording a call, and what the log tells: the number of full rescans (calls of
  \<^verbatim>\<open>plugin_load_all\<close>) and the number of exit hooks registered with \<^verbatim>\<open>atexit\<close>.
\<close>

definition log_call :: "event \<Rightarrow> 'api globals \<Rightarrow> 'api globals" where
  "log_call e s = s\<lparr>calls := calls s @ [e]\<rparr>"

definition rescans :: "'api globals \<Rightarrow> nat" where
  "rescans s = count_list (calls s) E_plugin_load_all"

definition atexit_hooks :: "'api globals \<Rightarrow> nat" where
  "atexit_hooks s = count_list (calls s) E_atexit"

subsection \<open>The plugin substrate (utils/plugin.c), as the specification describes it\<close>

text \<open>
  Modelled from the spec: \<^verbatim>\<open>plugin_info_create\<close> (utils/plugin.c is missing).
  Section 4.1: the registry is constructed with a search path seeded from the
  environment variable and with no registered entry; it fails only on allocation failure.
\<close>

definition plugin_info_create :: "'api env \<Rightarrow> 'api PluginInfo option" where
  "plugin_info_create env =
     (if alloc_ok env then Some \<lparr>paths = envvar_dirs env, apis = []\<rparr> else None)"

text \<open>
  Modelled from the spec: \<^verbatim>\<open>plugin_path_extend\<close> and \<^verbatim>\<open>plugin_path_extend_prefix\<close>
  (utils/plugin.c is missing). Section 4.1: the built-in default directories of the
  active mode are added to the search path.
\<close>

definition plugin_path_extend :: "'api PluginInfo \<Rightarrow> string list \<Rightarrow> 'api PluginInfo" where
  "plugin_path_extend info dirs = info\<lparr>paths := paths info @ dirs\<rparr>"

definition plugin_path_extend_prefix ::
  "'api env \<Rightarrow> 'api PluginInfo \<Rightarrow> string \<Rightarrow> string list \<Rightarrow> 'api PluginInfo" where
  "plugin_path_extend_prefix env info root dirs =
     info\<lparr>paths := paths info @ map (under_prefix env root) dirs\<rparr>"

text \<open>
  Modelled from the spec: \<^verbatim>\<open>plugin_get_api\<close> (utils/plugin.c is missing).
  Section 4.2 calls it the mapping lookup: the descriptor registered under the name, or
  \<^verbatim>\<open>NULL\<close>.
\<close>

definition plugin_get_api :: "'api PluginInfo \<Rightarrow> string \<Rightarrow> 'api option" where
  "plugin_get_api info name = map_of (apis info) name"

text \<open>
  Modelled from the spec: registration of a loaded plugin (utils/plugin.c is missing).
  Section 3: at most one entry per driver name; a later load that reports the same name
  replaces the mapping. A new name is entered behind the existing ones.
\<close>

fun register :: "string \<Rightarrow> 'api \<Rightarrow> (string \<times> 'api) list \<Rightarrow> (string \<times> 'api) list" where
  "register name api [] = [(name, api)]"
| "register name api ((k, v) # rest) =
     (if k = name then (name, api) # rest else (k, v) # register name api rest)"

text \<open>
  Modelled from the spec: \<^verbatim>\<open>plugin_load_all\<close> (utils/plugin.c is missing).
  Section 4.3: for every directory of the search path, in order, every shared library
  is opened and probed; a file whose probe fails is skipped, a file whose probe succeeds
  is registered under the name it reports, overwriting a prior entry of that name.
\<close>

fun load_files :: "'api env \<Rightarrow> string list \<Rightarrow> (string \<times> 'api) list \<Rightarrow> (string \<times> 'api) list" where
  "load_files env [] tab = tab"
| "load_files env (f # fs) tab =
     (case probe env f of
        None \<Rightarrow> load_files env fs tab
      | Some (name, api) \<Rightarrow> load_files env fs (register name api tab))"

definition scan_files :: "'api env \<Rightarrow> string list \<Rightarrow> string list" where
  "scan_files env dirs = concat (map (dir_files env) dirs)"

definition plugin_load_all :: "'api env \<Rightarrow> 'api PluginInfo \<Rightarrow> 'api PluginInfo" where
  "plugin_load_all env info =
     info\<lparr>apis := load_files env (scan_files env (paths info)) (apis info)\<rparr>"

text \<open>
  Modelled from the spec: \<^verbatim>\<open>plugin_names\<close> and \<^verbatim>\<open>plugin_unload\<close>
  (utils/plugin.c is missing). Section 4.4: the names of all currently registered
  entries; unloading removes the entry of the name and fails (non-zero) when there is
  none. The caller tests the list of names for \<^verbatim>\<open>NULL\<close>, which this model never
  yields.
\<close>

definition plugin_names :: "'api PluginInfo \<Rightarrow> string list option" where
  "plugin_names info = Some (map fst (apis info))"

definition plugin_unload :: "'api PluginInfo \<Rightarrow> string \<Rightarrow> int \<times> 'api PluginInfo" where
  "plugin_unload info name =
     (if map_of (apis info) name = None then (1, info)
      else (0, info\<lparr>apis := filter (\<lambda>e. fst e \<noteq> name) (apis info)\<rparr>))"

text \<open>
  Modelled from the spec: \<^verbatim>\<open>plugin_path_get\<close> (utils/plugin.c is missing). The
  comment of \<^verbatim>\<open>dlite_storage_plugin_paths\<close>, which returns its result unchanged,
  says what it is: a \<^verbatim>\<open>NULL\<close>-terminated array of the search paths, or \<^verbatim>\<open>NULL\<close> if
  no search path is defined.
\<close>

definition plugin_path_get :: "'api PluginInfo \<Rightarrow> string list option" where
  "plugin_path_get info = (if paths info = [] then None else Some (paths info))"

text \<open>
  Modelled from the spec: \<^verbatim>\<open>plugin_path_insert\<close>, \<^verbatim>\<open>plugin_path_append\<close> and
  \<^verbatim>\<open>plugin_path_appendn\<close> (utils/plugin.c and utils/fileutils.c are missing).
  Section 3: a negative index \<open>n\<close> denotes position \<open>len + n + 1\<close>. Section 4.5: an
  index out of range is clipped to the nearest valid bound, and the operation returns
  the actual insertion index; append inserts at the end and returns its index; the
  truncated append uses only the first \<open>n\<close> bytes of the path. The specification
  describes no failure of these operations, and the model has none.
\<close>

definition clip_index :: "nat \<Rightarrow> int \<Rightarrow> nat" where
  "clip_index len n =
     (let i = (if n < 0 then int len + n + 1 else n)
      in if i < 0 then 0 else if int len < i then len else nat i)"

definition plugin_path_insert :: "'api PluginInfo \<Rightarrow> string \<Rightarrow> int \<Rightarrow> int \<times> 'api PluginInfo" where
  "plugin_path_insert info path n =
     (let j = clip_index (length (paths info)) n
      in (int j, info\<lparr>paths := take j (paths info) @ path # drop j (paths info)\<rparr>))"

definition plugin_path_append :: "'api PluginInfo \<Rightarrow> string \<Rightarrow> int \<times> 'api PluginInfo" where
  "plugin_path_append info path =
     (int (length (paths info)), info\<lparr>paths := paths info @ [path]\<rparr>)"

definition plugin_path_appendn :: "'api PluginInfo \<Rightarrow> string \<Rightarrow> nat \<Rightarrow> int \<times> 'api PluginInfo" where
  "plugin_path_appendn info path n = plugin_path_append info (take n path)"

text \<open>
  Modelled from the spec: \<^verbatim>\<open>asnpprintf\<close> (utils/compat.h is missing). Section 4.2,
  step 4, describes the message that the calls build. The formatted text is written into
  the buffer at offset \<open>m\<close> and its length is returned. The callers test the result
  for a negative value, the sign of a failed allocation, which this model never yields.
\<close>

definition asnpprintf :: "string \<Rightarrow> nat \<Rightarrow> string \<Rightarrow> string \<times> int" where
  "asnpprintf buf m txt = (take m buf @ txt, int (length txt))"

text \<open>
  How a call of a function of this module ends: it returns a value, or the process
  exits with a status and a message on the error stream, or it reads through a
  \<^verbatim>\<open>NULL\<close> pointer, for which C defines no behaviour.
\<close>

datatype 'a outcome = Return 'a | Exit int string | Null_dereference

text \<open>
  Modelled from the spec: \<^verbatim>\<open>errx\<close> (utils/err.h is missing). Section 4.2: in the
  source, failure here terminates the process. Section 7: the source terminates the
  process on \<open>DriverNotFound\<close>.
\<close>

definition errx :: "int \<Rightarrow> string \<Rightarrow> 'a outcome" where
  "errx eval msg = Exit eval msg"

subsection \<open>Lazy initialisation\<close>

text \<open>
  \<^verbatim>\<open>storage_plugin_info_free\<close>, the hook handed to \<^verbatim>\<open>atexit\<close>.
\<close>

definition storage_plugin_info_free :: "'api globals \<Rightarrow> 'api globals" where
  "storage_plugin_info_free s = s\<lparr>storage_plugin_info := None\<rparr>"

text \<open>
  \<^verbatim>\<open>get_storage_plugin_info\<close>. The condition of the source is
  \<^verbatim>\<open>!storage_plugin_info && (storage_plugin_info = plugin_info_create(...))\<close>: the
  creation is attempted only while the variable is \<^verbatim>\<open>NULL\<close>, and the body runs only
  when it succeeded. The returned pointer is the variable itself, so the result is
  paired with the new globals. \<^verbatim>\<open>fu_paths_set_platform\<close> changes how the path is
  printed, which no operation modelled here reads.
\<close>

definition get_storage_plugin_info ::
  "'api env \<Rightarrow> 'api globals \<Rightarrow> 'api PluginInfo option \<times> 'api globals" where
  "get_storage_plugin_info env s =
     (case storage_plugin_info s of
        Some info \<Rightarrow> (Some info, s)
      | None \<Rightarrow>
          (let s1 = log_call E_plugin_info_create s in
           case plugin_info_create env of
             None \<Rightarrow> (None, s1)
           | Some info0 \<Rightarrow>
               (let s2 = log_call E_atexit s1;
                    info1 = (if dlite_use_build_root env
                             then plugin_path_extend info0 (dlite_STORAGE_PLUGINS env)
                             else plugin_path_extend_prefix env info0 (dlite_root_get env)
                                    (DLITE_STORAGE_PLUGIN_DIRS env));
                    s3 = log_call E_add_dll_path (s2\<lparr>storage_plugin_info := Some info1\<rparr>)
                in (Some info1, s3))))"

subsection \<open>Search path access\<close>

text \<open>\<^verbatim>\<open>dlite_storage_plugin_paths\<close>.\<close>

definition dlite_storage_plugin_paths ::
  "'api env \<Rightarrow> 'api globals \<Rightarrow> string list option \<times> 'api globals" where
  "dlite_storage_plugin_paths env s =
     (case get_storage_plugin_info env s of
        (None, s1) \<Rightarrow> (None, s1)
      | (Some info, s1) \<Rightarrow> (plugin_path_get info, s1))"

text \<open>
  \<^verbatim>\<open>dlite_storage_plugin_path_insert\<close>, \<^verbatim>\<open>dlite_storage_plugin_path_append\<close> and
  \<^verbatim>\<open>dlite_storage_plugin_path_appendn\<close>. Each returns 1 when there is no registry and
  otherwise what the operation on the registry returns; the registry is changed in place.
  The index is a C \<^verbatim>\<open>int\<close>; these functions pass it on and compute nothing with it.
\<close>

definition dlite_storage_plugin_path_insert ::
  "'api env \<Rightarrow> int \<Rightarrow> string \<Rightarrow> 'api globals \<Rightarrow> int \<times> 'api globals" where
  "dlite_storage_plugin_path_insert env n path s =
     (case get_storage_plugin_info env s of
        (None, s1) \<Rightarrow> (1, s1)
      | (Some info, s1) \<Rightarrow>
          (let (r, info1) = plugin_path_insert info path n
           in (r, s1\<lparr>storage_plugin_info := Some info1\<rparr>)))"

definition dlite_storage_plugin_path_append ::
  "'api env \<Rightarrow> string \<Rightarrow> 'api globals \<Rightarrow> int \<times> 'api globals" where
  "dlite_storage_plugin_path_append env path s =
     (case get_storage_plugin_info env s of
        (None, s1) \<Rightarrow> (1, s1)
      | (Some info, s1) \<Rightarrow>
          (let (r, info1) = plugin_path_append info path
           in (r, s1\<lparr>storage_plugin_info := Some info1\<rparr>)))"

definition dlite_storage_plugin_path_appendn ::
  "'api env \<Rightarrow> string \<Rightarrow> nat \<Rightarrow> 'api globals \<Rightarrow> int \<times> 'api globals" where
  "dlite_storage_plugin_path_appendn env path n s =
     (case get_storage_plugin_info env s of
        (None, s1) \<Rightarrow> (1, s1)
      | (Some info, s1) \<Rightarrow>
          (let (r, info1) = plugin_path_appendn info path n
           in (r, s1\<lparr>storage_plugin_info := Some info1\<rparr>)))"

subsection \<open>Resolution of a driver name\<close>

text \<open>
  The first part of \<^verbatim>\<open>dlite_storage_plugin_get\<close>, from the first lookup to the end
  of the block guarded by \<^verbatim>\<open>pathshash(...) == 0\<close>. The result is the descriptor
  with which the function returns there, or \<open>None\<close> when control reaches the block
  that builds the error message. \<^verbatim>\<open>memcmp\<close> and \<^verbatim>\<open>memcpy\<close> run over
  \<^verbatim>\<open>sizeof(hash)\<close>, the whole of both arrays.
\<close>

definition lookup_or_reload ::
  "'api env \<Rightarrow> string \<Rightarrow> 'api PluginInfo \<Rightarrow> 'api globals \<Rightarrow> 'api option \<times> 'api globals" where
  "lookup_or_reload env name info s =
     (let s1 = log_call (E_plugin_get_api name) s in
      case plugin_get_api info name of
        Some api \<Rightarrow> (Some api, s1)
      | None \<Rightarrow>
          if storage_plugin_info s1 = None then (None, s1)
          else
            (let s2 = log_call E_pathshash s1 in
             case pathshash env (paths info) of
               None \<Rightarrow> (None, s2)
             | Some hash \<Rightarrow>
                 if storage_plugin_path_hash s2 \<noteq> hash then
                   (let info1 = plugin_load_all env info;
                        s3 = log_call E_plugin_load_all (s2\<lparr>storage_plugin_info := Some info1\<rparr>);
                        s4 = s3\<lparr>storage_plugin_path_hash := hash\<rparr>;
                        s5 = log_call (E_plugin_get_api name) s4
                    in (plugin_get_api info1 name, s5))
                 else (None, s2)))"

text \<open>
  The loop \<^verbatim>\<open>while ((p = *(paths++)) && ++n)\<close> with its body: one line per search
  path, \<open>n\<close> counting them.
\<close>

fun list_paths :: "string list \<Rightarrow> string \<Rightarrow> nat \<Rightarrow> int \<Rightarrow> string \<times> nat \<times> int" where
  "list_paths [] buf m n = (buf, m, n)"
| "list_paths (p # ps) buf m n =
     (if n + 1 = 0 then (buf, m, n + 1)
      else
        (let (buf1, r) = asnpprintf buf m (''    '' @ p @ [CHR 0x0A]);
             m1 = (if r \<ge> 0 then m + nat r else m)
         in list_paths ps buf1 m1 (n + 1)))"

text \<open>
  The block of \<^verbatim>\<open>dlite_storage_plugin_get\<close> that builds the error message and
  hands it to \<^verbatim>\<open>errx\<close>. \<^verbatim>\<open>*(paths++)\<close> reads through the pointer that
  \<^verbatim>\<open>dlite_storage_plugin_paths\<close> returned, without a test. As \<^verbatim>\<open>errx\<close> ends
  the process, the statements after it, \<^verbatim>\<open>free(buf)\<close> and the final
  \<^verbatim>\<open>return NULL\<close>, are not reached.
\<close>

definition cannot_find ::
  "'api env \<Rightarrow> string \<Rightarrow> 'api globals \<Rightarrow> 'api option outcome \<times> 'api globals" where
  "cannot_find env name s =
     (case dlite_storage_plugin_paths env s of
        (None, s1) \<Rightarrow> (Null_dereference, s1)
      | (Some ps, s1) \<Rightarrow>
          (let submsg = (if dlite_use_build_root env then [] else ''DLITE_ROOT or '');
               (buf0, r) = asnpprintf [] 0
                  (''cannot find storage plugin for driver '' @ [CHR 0x22] @ name @
                   [CHR 0x22] @ '' in search path:'' @ [CHR 0x0A]);
               m0 = (if r \<ge> 0 then nat r else 0);
               (buf1, m1, n) = list_paths ps buf0 m0 0;
               buf2 = (if n \<le> 1
                       then fst (asnpprintf buf1 m1
                              (''Is the '' @ submsg @
                               ''DLITE_STORAGE_PLUGIN_DIRS enveronment variable(s) set?''))
                       else buf1)
           in (errx 1 buf2, s1)))"

text \<open>\<^verbatim>\<open>dlite_storage_plugin_get\<close>.\<close>

definition dlite_storage_plugin_get ::
  "'api env \<Rightarrow> string \<Rightarrow> 'api globals \<Rightarrow> 'api option outcome \<times> 'api globals" where
  "dlite_storage_plugin_get env name s =
     (case get_storage_plugin_info env s of
        (None, s1) \<Rightarrow> (Return None, s1)
      | (Some info, s1) \<Rightarrow>
          (case lookup_or_reload env name info s1 of
             (Some api, s2) \<Rightarrow> (Return (Some api), s2)
           | (None, s2) \<Rightarrow> cannot_find env name s2))"

subsection \<open>Loading and unloading\<close>

text \<open>\<^verbatim>\<open>dlite_storage_plugin_load_all\<close>.\<close>

definition dlite_storage_plugin_load_all :: "'api env \<Rightarrow> 'api globals \<Rightarrow> int \<times> 'api globals" where
  "dlite_storage_plugin_load_all env s =
     (case get_storage_plugin_info env s of
        (None, s1) \<Rightarrow> (1, s1)
      | (Some info, s1) \<Rightarrow>
          (0, log_call E_plugin_load_all
                (s1\<lparr>storage_plugin_info := Some (plugin_load_all env info)\<rparr>)))"

text \<open>
  The loop of \<^verbatim>\<open>dlite_storage_plugin_unload_all\<close> over the names, the result of
  each \<^verbatim>\<open>plugin_unload\<close> being dropped.
\<close>

fun unload_names :: "'api PluginInfo \<Rightarrow> string list \<Rightarrow> 'api PluginInfo" where
  "unload_names info [] = info"
| "unload_names info (p # ps) = unload_names (snd (plugin_unload info p)) ps"

text \<open>\<^verbatim>\<open>dlite_storage_plugin_unload_all\<close>.\<close>

definition dlite_storage_plugin_unload_all :: "'api env \<Rightarrow> 'api globals \<Rightarrow> 'api globals" where
  "dlite_storage_plugin_unload_all env s =
     (case get_storage_plugin_info env s of
        (None, s1) \<Rightarrow> s1
      | (Some info, s1) \<Rightarrow>
          (case plugin_names info of
             None \<Rightarrow> s1
           | Some names \<Rightarrow> s1\<lparr>storage_plugin_info := Some (unload_names info names)\<rparr>))"

text \<open>\<^verbatim>\<open>dlite_storage_plugin_unload\<close>.\<close>

definition dlite_storage_plugin_unload ::
  "'api env \<Rightarrow> string \<Rightarrow> 'api globals \<Rightarrow> int \<times> 'api globals" where
  "dlite_storage_plugin_unload env name s =
     (case get_storage_plugin_info env s of
        (None, s1) \<Rightarrow> (1, s1)
      | (Some info, s1) \<Rightarrow>
          (let (r, info1) = plugin_unload info name
           in (r, s1\<lparr>storage_plugin_info := Some info1\<rparr>)))"

subsection \<open>Clients of the module\<close>

text \<open>
  A client of the module: a sequence of calls of its functions, each made under the
  environment it meets. The globals are threaded through the calls. A call of
  \<^verbatim>\<open>dlite_storage_plugin_get\<close> that ends the process ends the sequence in fact; the
  run goes on from the globals at that point, which only adds runs.
\<close>

datatype call =
    Get string
  | Load_all
  | Unload_all
  | Unload string
  | Paths
  | Path_insert int string
  | Path_append string
  | Path_appendn string nat

fun step :: "'api env \<Rightarrow> call \<Rightarrow> 'api globals \<Rightarrow> 'api globals" where
  "step env (Get name) s = snd (dlite_storage_plugin_get env name s)"
| "step env Load_all s = snd (dlite_storage_plugin_load_all env s)"
| "step env Unload_all s = dlite_storage_plugin_unload_all env s"
| "step env (Unload name) s = snd (dlite_storage_plugin_unload env name s)"
| "step env Paths s = snd (dlite_storage_plugin_paths env s)"
| "step env (Path_insert n path) s = snd (dlite_storage_plugin_path_insert env n path s)"
| "step env (Path_append path) s = snd (dlite_storage_plugin_path_append env path s)"
| "step env (Path_appendn path n) s = snd (dlite_storage_plugin_path_appendn env path n s)"

fun run :: "('api env \<times> call) list \<Rightarrow> 'api globals \<Rightarrow> 'api globals" where
  "run [] s = s"
| "run ((env, c) # cs) s = run cs (step env c s)"

text \<open>
  The exit hook has been registered once if there is a registry, and not at all
  otherwise.
\<close>

definition hook_once :: "'api globals \<Rightarrow> bool" where
  "hook_once s \<longleftrightarrow> atexit_hooks s = (if storage_plugin_info s = None then 0 else 1)"

subsection \<open>A small installation to run the operations on\<close>

text \<open>
  A digest for the examples, standing in for the hash function of pathshash.c: it
  depends on the number of search paths and on their total length.
\<close>

definition count_digest :: "string list \<Rightarrow> 8 word list option" where
  "count_digest ps = Some (replicate 32 (of_nat (length ps + length (concat ps))))"

text \<open>
  A build tree with one plugin directory that holds a file that is no plugin and the
  JSON plugin, and a further directory \<^verbatim>\<open>/extra\<close> with the HDF5 plugin, which is not
  on the search path at the start. Descriptors are numbers.
\<close>

definition demo_env :: "nat env" where
  "demo_env =
     \<lparr>alloc_ok = True, envvar_dirs = [], dlite_use_build_root = True,
      dlite_STORAGE_PLUGINS = [''/build/plugins''],
      DLITE_STORAGE_PLUGIN_DIRS = [''lib/plugins''],
      dlite_root_get = ''/usr'', under_prefix = (\<lambda>p d. p @ ''/'' @ d),
      pathshash = count_digest,
      dir_files = (\<lambda>d. if d = ''/build/plugins''
                        then [''/build/plugins/README.so'', ''/build/plugins/json.so'']
                        else if d = ''/extra'' then [''/extra/hdf5.so''] else []),
      probe = (\<lambda>f. if f = ''/build/plugins/json.so'' then Some (''json'', 1)
                    else if f = ''/extra/hdf5.so'' then Some (''hdf5'', 2) else None)\<rparr>"

text \<open>The globals after \<^verbatim>\<open>dlite_storage_plugin_get("json")\<close> in a fresh process.\<close>

definition demo_loaded :: "nat globals" where
  "demo_loaded =
     \<lparr>storage_plugin_info = Some \<lparr>paths = [''/build/plugins''], apis = [(''json'', 1)]\<rparr>,
      storage_plugin_path_hash = replicate 32 15,
      calls = [E_plugin_info_create, E_atexit, E_add_dll_path, E_plugin_get_api ''json'',
               E_pathshash, E_plugin_load_all, E_plugin_get_api ''json'']\<rparr>"

text \<open>The globals after \<^verbatim>\<open>dlite_storage_plugin_load_all()\<close> in a fresh process.\<close>

definition demo_scanned :: "nat globals" where
  "demo_scanned =
     \<lparr>storage_plugin_info = Some \<lparr>paths = [''/build/plugins''], apis = [(''json'', 1)]\<rparr>,
      storage_plugin_path_hash = replicate 32 0,
      calls = [E_plugin_info_create, E_atexit, E_add_dll_path, E_plugin_load_all]\<rparr>"

section \<open>Properties\<close>

subsection \<open>Evaluation and basic facts\<close>

lemmas model_defs = get_storage_plugin_info_def plugin_info_create_def log_call_def
  plugin_path_extend_def plugin_path_extend_prefix_def dlite_storage_plugin_get_def
  lookup_or_reload_def plugin_get_api_def plugin_load_all_def scan_files_def
  cannot_find_def dlite_storage_plugin_paths_def plugin_path_get_def asnpprintf_def errx_def
  dlite_storage_plugin_load_all_def dlite_storage_plugin_unload_all_def plugin_names_def
  plugin_unload_def dlite_storage_plugin_path_append_def plugin_path_append_def
  dlite_storage_plugin_path_insert_def plugin_path_insert_def clip_index_def
  dlite_storage_plugin_path_appendn_def plugin_path_appendn_def
  dlite_storage_plugin_unload_def initial_globals_def rescans_def atexit_hooks_def

lemmas demo_defs = demo_env_def demo_loaded_def count_digest_def

lemma demo_loaded_reached:
  "dlite_storage_plugin_get demo_env ''json'' initial_globals = (Return (Some 1), demo_loaded)"
  by (simp add: model_defs demo_defs Let_def)

lemma get_info_present:
  "storage_plugin_info s = Some info \<Longrightarrow> get_storage_plugin_info env s = (Some info, s)"
  by (simp add: get_storage_plugin_info_def)

lemma get_info_result:
  "get_storage_plugin_info env s = (r, s1) \<Longrightarrow> storage_plugin_info s1 = r"
  by (auto simp: get_storage_plugin_info_def log_call_def Let_def split: option.splits)

lemma get_info_hash:
  "storage_plugin_path_hash (snd (get_storage_plugin_info env s)) = storage_plugin_path_hash s"
  by (auto simp: get_storage_plugin_info_def log_call_def Let_def split: option.splits)

lemma get_info_hash':
  "get_storage_plugin_info env s = (r, s1) \<Longrightarrow>
   storage_plugin_path_hash s1 = storage_plugin_path_hash s"
  using get_info_hash [of env s] by simp

lemma get_info_rescans:
  "rescans (snd (get_storage_plugin_info env s)) = rescans s"
  by (auto simp: get_storage_plugin_info_def log_call_def Let_def rescans_def
      split: option.splits)

lemma get_info_rescans':
  "get_storage_plugin_info env s = (r, s1) \<Longrightarrow> rescans s1 = rescans s"
  using get_info_rescans [of env s] by simp

lemma get_info_absent:
  "fst (get_storage_plugin_info env s) = None \<longleftrightarrow>
   storage_plugin_info s = None \<and> \<not> alloc_ok env"
  by (auto simp: get_storage_plugin_info_def plugin_info_create_def log_call_def Let_def
      split: option.splits)

lemma rescans_calls:
  "rescans (s\<lparr>calls := calls s @ xs\<rparr>) = rescans s + count_list xs E_plugin_load_all"
  by (simp add: rescans_def)

lemma rescans_update [simp]:
  "rescans (s\<lparr>storage_plugin_info := x\<rparr>) = rescans s"
  "rescans (s\<lparr>storage_plugin_path_hash := y\<rparr>) = rescans s"
  by (simp_all add: rescans_def)

subsection \<open>The plugin table and the search path\<close>

lemma map_of_register: "map_of (register name api tab) = (map_of tab)(name \<mapsto> api)"
  by (induction tab) auto

lemma load_files_skips_failures:
  "load_files env fs tab = load_files env (filter (\<lambda>f. probe env f \<noteq> None) fs) tab"
  by (induction fs arbitrary: tab) (auto split: option.splits)

lemma load_files_keeps:
  "map_of tab name = Some a \<Longrightarrow>
   \<exists>a'. map_of (load_files env fs tab) name = Some a' \<and>
        (a' = a \<or> (\<exists>f \<in> set fs. probe env f = Some (name, a')))"
proof (induction fs arbitrary: tab a)
  case Nil
  then show ?case by simp
next
  case (Cons f fs)
  show ?case
  proof (cases "probe env f")
    case None
    with Cons.IH [OF Cons.prems] show ?thesis by auto
  next
    case (Some e)
    obtain n b where e: "e = (n, b)" by (cases e)
    show ?thesis
    proof (cases "n = name")
      case True
      have "map_of (register n b tab) name = Some b"
        using True by (simp add: map_of_register)
      from Cons.IH [OF this] Some e True show ?thesis by auto
    next
      case False
      have "map_of (register n b tab) name = Some a"
        using False Cons.prems by (simp add: map_of_register)
      from Cons.IH [OF this] Some e show ?thesis by auto
    qed
  qed
qed

lemma load_files_registers:
  "f \<in> set fs \<Longrightarrow> probe env f = Some (name, api) \<Longrightarrow>
   \<exists>f' api'. f' \<in> set fs \<and> probe env f' = Some (name, api') \<and>
             map_of (load_files env fs tab) name = Some api'"
proof (induction fs arbitrary: tab)
  case Nil
  then show ?case by simp
next
  case (Cons g fs)
  show ?case
  proof (cases "g = f")
    case True
    have "map_of (register name api tab) name = Some api"
      by (simp add: map_of_register)
    from load_files_keeps [OF this, of env fs] True Cons.prems(2)
    show ?thesis by auto
  next
    case False
    then have "f \<in> set fs" using Cons.prems(1) by simp
    from Cons.IH [OF this Cons.prems(2)]
    show ?thesis by (cases "probe env g") (auto, blast+)
  qed
qed

lemma plugin_load_all_paths: "paths (plugin_load_all env info) = paths info"
  by (simp add: plugin_load_all_def)

lemma plugin_unload_result:
  "snd (plugin_unload info name) = info\<lparr>apis := filter (\<lambda>e. fst e \<noteq> name) (apis info)\<rparr>"
proof (cases "map_of (apis info) name = None")
  case True
  then have "name \<notin> fst ` set (apis info)"
    by (simp add: map_of_eq_None_iff)
  then have "filter (\<lambda>e. fst e \<noteq> name) (apis info) = apis info"
    by (auto simp: filter_id_conv)
  then show ?thesis using True by (simp add: plugin_unload_def)
next
  case False
  then show ?thesis by (auto simp add: plugin_unload_def)
qed

lemma unload_names_result:
  "unload_names info ns = info\<lparr>apis := filter (\<lambda>e. fst e \<notin> set ns) (apis info)\<rparr>"
proof (induction ns arbitrary: info)
  case Nil
  then show ?case by simp
next
  case (Cons n ns)
  have "unload_names info (n # ns) =
        unload_names (info\<lparr>apis := filter (\<lambda>e. fst e \<noteq> n) (apis info)\<rparr>) ns"
    by (simp add: plugin_unload_result)
  also have "\<dots> = info\<lparr>apis := filter (\<lambda>e. fst e \<notin> set ns)
                                (filter (\<lambda>e. fst e \<noteq> n) (apis info))\<rparr>"
    by (simp add: Cons.IH)
  also have "filter (\<lambda>e. fst e \<notin> set ns) (filter (\<lambda>e. fst e \<noteq> n) (apis info)) =
             filter (\<lambda>e. fst e \<notin> set (n # ns)) (apis info)"
    by (auto intro: filter_cong)
  finally show ?case .
qed

lemma clip_index_minus1: "clip_index L (-1) = L"
  by (simp add: clip_index_def)

lemma clip_index_high: "clip_index L (int L + 100) = L"
  by (simp add: clip_index_def Let_def)

lemma clip_index_low: "clip_index L (- (int L + 100)) = 0"
  by (simp add: clip_index_def Let_def)

lemma clip_index_bound: "clip_index L n \<le> L"
  by (auto simp add: clip_index_def Let_def)

subsection \<open>The operations on an existing registry\<close>

lemma load_all_result:
  "get_storage_plugin_info env s = (Some info, s1) \<Longrightarrow>
   dlite_storage_plugin_load_all env s =
     (0, s1\<lparr>storage_plugin_info := Some (plugin_load_all env info),
            calls := calls s1 @ [E_plugin_load_all]\<rparr>)"
  by (simp add: dlite_storage_plugin_load_all_def log_call_def)

lemma load_all_hash:
  "storage_plugin_path_hash (snd (dlite_storage_plugin_load_all env s)) =
   storage_plugin_path_hash s"
  using get_info_hash [of env s]
  by (auto simp: dlite_storage_plugin_load_all_def log_call_def split: prod.splits option.splits)

lemma unload_all_result:
  assumes "get_storage_plugin_info env s = (Some info, s1)"
  shows "dlite_storage_plugin_unload_all env s =
           s1\<lparr>storage_plugin_info := Some (info\<lparr>apis := []\<rparr>)\<rparr>"
proof -
  have "filter (\<lambda>e. fst e \<notin> set (map fst (apis info))) (apis info) = []"
    by (auto simp: filter_empty_conv)
  then show ?thesis
    using assms
    by (simp add: dlite_storage_plugin_unload_all_def plugin_names_def unload_names_result)
qed

lemma path_append_result:
  "get_storage_plugin_info env s = (Some info, s1) \<Longrightarrow>
   dlite_storage_plugin_path_append env p s =
     (int (length (paths info)),
      s1\<lparr>storage_plugin_info := Some (info\<lparr>paths := paths info @ [p]\<rparr>)\<rparr>)"
  by (simp add: dlite_storage_plugin_path_append_def plugin_path_append_def)

lemma path_insert_at:
  "get_storage_plugin_info env s = (Some info, s1) \<Longrightarrow>
   dlite_storage_plugin_path_insert env n p s =
     (int (clip_index (length (paths info)) n),
      s1\<lparr>storage_plugin_info := Some (info\<lparr>paths :=
            take (clip_index (length (paths info)) n) (paths info) @
            p # drop (clip_index (length (paths info)) n) (paths info)\<rparr>)\<rparr>)"
  by (simp add: dlite_storage_plugin_path_insert_def plugin_path_insert_def Let_def)

subsection \<open>The parts of name resolution\<close>

lemma lookup_hit:
  "plugin_get_api info name = Some api \<Longrightarrow>
   lookup_or_reload env name info s = (Some api, s\<lparr>calls := calls s @ [E_plugin_get_api name]\<rparr>)"
  by (simp add: lookup_or_reload_def log_call_def)

lemma lookup_reload:
  "plugin_get_api info name = None \<Longrightarrow> storage_plugin_info s = Some info0 \<Longrightarrow>
   pathshash env (paths info) = Some h \<Longrightarrow> h \<noteq> storage_plugin_path_hash s \<Longrightarrow>
   lookup_or_reload env name info s =
     (plugin_get_api (plugin_load_all env info) name,
      s\<lparr>storage_plugin_info := Some (plugin_load_all env info),
        storage_plugin_path_hash := h,
        calls := calls s @ [E_plugin_get_api name, E_pathshash, E_plugin_load_all,
                            E_plugin_get_api name]\<rparr>)"
  by (auto simp add: lookup_or_reload_def log_call_def Let_def)

lemma lookup_skip:
  "plugin_get_api info name = None \<Longrightarrow> storage_plugin_info s = Some info0 \<Longrightarrow>
   pathshash env (paths info) = None \<or> pathshash env (paths info) = Some (storage_plugin_path_hash s) \<Longrightarrow>
   lookup_or_reload env name info s =
     (None, s\<lparr>calls := calls s @ [E_plugin_get_api name, E_pathshash]\<rparr>)"
  by (auto simp add: lookup_or_reload_def log_call_def Let_def)

lemma asnpprintf_at_end: "asnpprintf buf (length buf) txt = (buf @ txt, int (length txt))"
  by (simp add: asnpprintf_def)

lemma list_paths_step:
  "0 \<le> n \<Longrightarrow>
   list_paths (p # ps) buf (length buf) n =
     list_paths ps (buf @ ''    '' @ p @ [CHR 0x0A]) (length (buf @ ''    '' @ p @ [CHR 0x0A])) (n + 1)"
proof -
  assume n: "0 \<le> n"
  then have z: "n + 1 \<noteq> 0" by simp
  show ?thesis
    apply (subst list_paths.simps)
    apply (simp only: z if_False asnpprintf_at_end Let_def prod.case)
    apply (simp only: of_nat_0_le_iff if_True nat_int length_append)
    done
qed

lemma list_paths_lines:
  "0 \<le> n \<Longrightarrow>
   list_paths ps buf (length buf) n =
     (buf @ concat (map (\<lambda>p. ''    '' @ p @ [CHR 0x0A]) ps),
      length buf + length (concat (map (\<lambda>p. ''    '' @ p @ [CHR 0x0A]) ps)),
      n + int (length ps))"
proof (induction ps arbitrary: buf n)
  case Nil
  then show ?case by simp
next
  case (Cons p ps)
  have "list_paths (p # ps) buf (length buf) n =
        list_paths ps (buf @ ''    '' @ p @ [CHR 0x0A]) (length (buf @ ''    '' @ p @ [CHR 0x0A])) (n + 1)"
    using Cons.prems by (rule list_paths_step)
  also have "\<dots> = ((buf @ ''    '' @ p @ [CHR 0x0A]) @ concat (map (\<lambda>p. ''    '' @ p @ [CHR 0x0A]) ps),
      length (buf @ ''    '' @ p @ [CHR 0x0A]) + length (concat (map (\<lambda>p. ''    '' @ p @ [CHR 0x0A]) ps)),
      (n + 1) + int (length ps))"
    using Cons.prems by (intro Cons.IH) simp
  finally show ?case by simp
qed

lemma cannot_find_exit:
  assumes "storage_plugin_info s = Some info" and "paths info \<noteq> []"
  shows "cannot_find env name s =
     (Exit 1 (''cannot find storage plugin for driver '' @ [CHR 0x22] @ name @ [CHR 0x22] @
              '' in search path:'' @ [CHR 0x0A] @
              concat (map (\<lambda>p. ''    '' @ p @ [CHR 0x0A]) (paths info)) @
              (if length (paths info) \<le> 1
               then ''Is the '' @ (if dlite_use_build_root env then [] else ''DLITE_ROOT or '') @
                    ''DLITE_STORAGE_PLUGIN_DIRS enveronment variable(s) set?''
               else [])), s)"
proof -
  let ?hd = "''cannot find storage plugin for driver '' @ [CHR 0x22] @ name @ [CHR 0x22] @
              '' in search path:'' @ [CHR 0x0A]"
  have p: "dlite_storage_plugin_paths env s = (Some (paths info), s)"
    using assms by (simp add: dlite_storage_plugin_paths_def get_info_present plugin_path_get_def)
  have a: "asnpprintf [] 0 ?hd = (?hd, int (length ?hd))"
    by (simp add: asnpprintf_def)
  have l: "list_paths (paths info) ?hd (length ?hd) 0 =
     (?hd @ concat (map (\<lambda>p. ''    '' @ p @ [CHR 0x0A]) (paths info)),
      length ?hd + length (concat (map (\<lambda>p. ''    '' @ p @ [CHR 0x0A]) (paths info))),
      0 + int (length (paths info)))"
    by (rule list_paths_lines) simp
  show ?thesis
    unfolding cannot_find_def p
    apply (simp only: prod.case option.case Let_def a)
    apply (simp only: nat_int if_True of_nat_0_le_iff l prod.case)
    apply (simp add: asnpprintf_def errx_def)
    done
qed

lemma cannot_find_null:
  assumes "storage_plugin_info s = Some info" and "paths info = []"
  shows "cannot_find env name s = (Null_dereference, s)"
  using assms
  by (simp add: cannot_find_def dlite_storage_plugin_paths_def get_info_present plugin_path_get_def)

lemma cannot_find_state:
  "storage_plugin_info s = Some info \<Longrightarrow> snd (cannot_find env name s) = s"
  by (cases "paths info = []") (simp_all add: cannot_find_exit cannot_find_null)

lemma cannot_find_no_return:
  "storage_plugin_info s = Some info \<Longrightarrow> fst (cannot_find env name s) \<noteq> Return x"
  by (cases "paths info = []") (simp_all add: cannot_find_exit cannot_find_null)

lemma get_hit:
  "storage_plugin_info s = Some info \<Longrightarrow> plugin_get_api info name = Some api \<Longrightarrow>
   dlite_storage_plugin_get env name s =
     (Return (Some api), s\<lparr>calls := calls s @ [E_plugin_get_api name]\<rparr>)"
  by (simp add: dlite_storage_plugin_get_def get_info_present lookup_hit)

lemma get_reload:
  assumes "get_storage_plugin_info env s = (Some info, s1)"
    and "plugin_get_api info name = None"
    and "pathshash env (paths info) = Some h" and "h \<noteq> storage_plugin_path_hash s1"
  shows "dlite_storage_plugin_get env name s =
     (case plugin_get_api (plugin_load_all env info) name of
        Some api \<Rightarrow> (Return (Some api),
                     s1\<lparr>storage_plugin_info := Some (plugin_load_all env info),
                        storage_plugin_path_hash := h,
                        calls := calls s1 @ [E_plugin_get_api name, E_pathshash,
                                             E_plugin_load_all, E_plugin_get_api name]\<rparr>)
      | None \<Rightarrow> cannot_find env name
                    (s1\<lparr>storage_plugin_info := Some (plugin_load_all env info),
                        storage_plugin_path_hash := h,
                        calls := calls s1 @ [E_plugin_get_api name, E_pathshash,
                                             E_plugin_load_all, E_plugin_get_api name]\<rparr>))"
proof -
  have i: "storage_plugin_info s1 = Some info"
    using assms(1) by (rule get_info_result)
  show ?thesis
    unfolding dlite_storage_plugin_get_def assms(1)
    by (simp add: lookup_reload [OF assms(2) i assms(3) assms(4)] split: option.splits)
qed

lemma get_skip:
  assumes "get_storage_plugin_info env s = (Some info, s1)"
    and "plugin_get_api info name = None"
    and "pathshash env (paths info) = None \<or>
         pathshash env (paths info) = Some (storage_plugin_path_hash s1)"
  shows "dlite_storage_plugin_get env name s =
           cannot_find env name (s1\<lparr>calls := calls s1 @ [E_plugin_get_api name, E_pathshash]\<rparr>)"
proof -
  have i: "storage_plugin_info s1 = Some info"
    using assms(1) by (rule get_info_result)
  show ?thesis
    unfolding dlite_storage_plugin_get_def assms(1)
    by (simp add: lookup_skip [OF assms(2) i assms(3)])
qed

lemma get_without_registry:
  "get_storage_plugin_info env s = (None, s1) \<Longrightarrow>
   dlite_storage_plugin_get env name s = (Return None, s1)"
  by (simp add: dlite_storage_plugin_get_def)

lemma get_after_info:
  assumes "get_storage_plugin_info env s = (Some info, s1)"
  shows "dlite_storage_plugin_get env name s = dlite_storage_plugin_get env name s1"
proof -
  have "get_storage_plugin_info env s1 = (Some info, s1)"
    using assms get_info_result get_info_present by blast
  then show ?thesis
    using assms by (simp add: dlite_storage_plugin_get_def)
qed

lemma get_hit_effect:
  assumes "storage_plugin_info s = Some info" and "plugin_get_api info name = Some api"
  shows "rescans (snd (dlite_storage_plugin_get env name s)) = rescans s"
  unfolding get_hit [OF assms] by (simp add: rescans_def)

text \<open>What a resolution does to the globals and how it ends, case by case.\<close>

lemma get_skip_effect:
  assumes "storage_plugin_info s = Some info"
    and "plugin_get_api info name = None"
    and "pathshash env (paths info) = None \<or>
         pathshash env (paths info) = Some (storage_plugin_path_hash s)"
  shows "snd (dlite_storage_plugin_get env name s) =
           s\<lparr>calls := calls s @ [E_plugin_get_api name, E_pathshash]\<rparr>"
    and "rescans (snd (dlite_storage_plugin_get env name s)) = rescans s"
    and "fst (dlite_storage_plugin_get env name s) \<noteq> Return a"
    and "paths info \<noteq> [] \<Longrightarrow> \<exists>msg. fst (dlite_storage_plugin_get env name s) = Exit 1 msg"
proof -
  let ?s = "s\<lparr>calls := calls s @ [E_plugin_get_api name, E_pathshash]\<rparr>"
  have g: "get_storage_plugin_info env s = (Some info, s)"
    using assms(1) by (rule get_info_present)
  have e: "dlite_storage_plugin_get env name s = cannot_find env name ?s"
    using get_skip [OF g assms(2) assms(3)] .
  have i: "storage_plugin_info ?s = Some info" using assms(1) by simp
  show st: "snd (dlite_storage_plugin_get env name s) = ?s"
    unfolding e using i by (rule cannot_find_state)
  show "rescans (snd (dlite_storage_plugin_get env name s)) = rescans s"
    unfolding st by (simp add: rescans_def)
  show "fst (dlite_storage_plugin_get env name s) \<noteq> Return a"
    unfolding e using i by (rule cannot_find_no_return)
  show "\<exists>msg. fst (dlite_storage_plugin_get env name s) = Exit 1 msg" if "paths info \<noteq> []"
    unfolding e cannot_find_exit [OF i that] by simp
qed

lemma get_reload_effect:
  assumes "storage_plugin_info s = Some info"
    and "plugin_get_api info name = None"
    and "pathshash env (paths info) = Some h" and "h \<noteq> storage_plugin_path_hash s"
  shows "snd (dlite_storage_plugin_get env name s) =
           s\<lparr>storage_plugin_info := Some (plugin_load_all env info),
             storage_plugin_path_hash := h,
             calls := calls s @ [E_plugin_get_api name, E_pathshash, E_plugin_load_all,
                                 E_plugin_get_api name]\<rparr>"
    and "rescans (snd (dlite_storage_plugin_get env name s)) = rescans s + 1"
proof -
  let ?s = "s\<lparr>storage_plugin_info := Some (plugin_load_all env info),
             storage_plugin_path_hash := h,
             calls := calls s @ [E_plugin_get_api name, E_pathshash, E_plugin_load_all,
                                 E_plugin_get_api name]\<rparr>"
  have g: "get_storage_plugin_info env s = (Some info, s)"
    using assms(1) by (rule get_info_present)
  have i: "storage_plugin_info ?s = Some (plugin_load_all env info)" by simp
  show st: "snd (dlite_storage_plugin_get env name s) = ?s"
    unfolding get_reload [OF g assms(2) assms(3) assms(4)]
    by (cases "plugin_get_api (plugin_load_all env info) name")
       (simp_all only: option.case snd_conv cannot_find_state [OF i])
  show "rescans (snd (dlite_storage_plugin_get env name s)) = rescans s + 1"
    unfolding st by (simp add: rescans_def)
qed

lemma get_miss_then_current:
  assumes "storage_plugin_info s = Some info" and "plugin_get_api info n1 = None"
  shows "\<exists>info2. storage_plugin_info (snd (dlite_storage_plugin_get env n1 s)) = Some info2
           \<and> paths info2 = paths info
           \<and> (pathshash env (paths info2) = None \<or>
               pathshash env (paths info2) =
                 Some (storage_plugin_path_hash (snd (dlite_storage_plugin_get env n1 s))))"
proof (cases "\<exists>h. pathshash env (paths info) = Some h \<and> h \<noteq> storage_plugin_path_hash s")
  case True
  then obtain h where h: "pathshash env (paths info) = Some h"
    and ne: "h \<noteq> storage_plugin_path_hash s" by blast
  show ?thesis
    unfolding get_reload_effect(1) [OF assms h ne]
    using h by (simp add: plugin_load_all_paths)
next
  case False
  then have sk: "pathshash env (paths info) = None \<or>
                 pathshash env (paths info) = Some (storage_plugin_path_hash s)"
    by (cases "pathshash env (paths info)") auto
  show ?thesis
    unfolding get_skip_effect(1) [OF assms sk]
    using sk assms(1) by simp
qed

lemma get_failure:
  assumes g: "get_storage_plugin_info env s = (Some info, s1)"
    and f: "\<forall>a. fst (dlite_storage_plugin_get env name s) \<noteq> Return a"
  shows "\<exists>s2 info2. dlite_storage_plugin_get env name s = cannot_find env name s2
            \<and> storage_plugin_info s2 = Some info2 \<and> paths info2 = paths info"
proof -
  have i1: "storage_plugin_info s1 = Some info" using g by (rule get_info_result)
  have m: "plugin_get_api info name = None"
  proof (cases "plugin_get_api info name")
    case None
    then show ?thesis .
  next
    case (Some api)
    have "fst (dlite_storage_plugin_get env name s) = Return (Some api)"
      unfolding get_after_info [OF g] get_hit [OF i1 Some] by simp
    with f show ?thesis by simp
  qed
  show ?thesis
  proof (cases "\<exists>h. pathshash env (paths info) = Some h \<and> h \<noteq> storage_plugin_path_hash s1")
    case True
    then obtain h where h: "pathshash env (paths info) = Some h"
      and ne: "h \<noteq> storage_plugin_path_hash s1" by blast
    let ?s = "s1\<lparr>storage_plugin_info := Some (plugin_load_all env info),
                 storage_plugin_path_hash := h,
                 calls := calls s1 @ [E_plugin_get_api name, E_pathshash,
                                      E_plugin_load_all, E_plugin_get_api name]\<rparr>"
    note r = get_reload [OF g m h ne]
    have "plugin_get_api (plugin_load_all env info) name = None"
    proof (cases "plugin_get_api (plugin_load_all env info) name")
      case None
      then show ?thesis .
    next
      case (Some api)
      have "fst (dlite_storage_plugin_get env name s) = Return (Some api)"
        unfolding r Some by simp
      with f show ?thesis by simp
    qed
    then have "dlite_storage_plugin_get env name s = cannot_find env name ?s"
      unfolding r by simp
    moreover have "storage_plugin_info ?s = Some (plugin_load_all env info)" by simp
    moreover have "paths (plugin_load_all env info) = paths info"
      by (rule plugin_load_all_paths)
    ultimately show ?thesis by blast
  next
    case False
    then have sk: "pathshash env (paths info) = None \<or>
                   pathshash env (paths info) = Some (storage_plugin_path_hash s1)"
      by (cases "pathshash env (paths info)") auto
    let ?s = "s1\<lparr>calls := calls s1 @ [E_plugin_get_api name, E_pathshash]\<rparr>"
    have "dlite_storage_plugin_get env name s = cannot_find env name ?s"
      using g m sk by (rule get_skip)
    moreover have "storage_plugin_info ?s = Some info" using i1 by simp
    ultimately show ?thesis by blast
  qed
qed

lemma sublist_of_line:
  assumes "p \<in> set ps"
  shows "sublist p (a @ concat (map (\<lambda>p. b @ p @ c) ps) @ d)"
proof -
  from assms obtain xs ys where "ps = xs @ p # ys"
    by (auto dest: split_list)
  then have "a @ concat (map (\<lambda>p. b @ p @ c) ps) @ d =
             (a @ concat (map (\<lambda>p. b @ p @ c) xs) @ b) @ p @
             (c @ concat (map (\<lambda>p. b @ p @ c) ys) @ d)"
    by simp
  then show ?thesis
    unfolding sublist_def by blast
qed

subsection \<open>The exit hook over a run\<close>

lemma hook_once_initial: "hook_once initial_globals"
  by (simp add: hook_once_def initial_globals_def atexit_hooks_def)

lemma hook_once_get_info:
  "hook_once s \<Longrightarrow> hook_once (snd (get_storage_plugin_info env s))"
  by (auto simp: hook_once_def get_storage_plugin_info_def plugin_info_create_def log_call_def
      atexit_hooks_def Let_def split: option.splits)

lemma hook_once_get_info':
  "hook_once s \<Longrightarrow> get_storage_plugin_info env s = (r, s1) \<Longrightarrow> hook_once s1"
  using hook_once_get_info [of s env] by simp

lemma hook_once_update:
  "hook_once s \<Longrightarrow> storage_plugin_info s = Some info \<Longrightarrow> E_atexit \<notin> set es \<Longrightarrow>
   hook_once (s\<lparr>storage_plugin_info := Some info1, storage_plugin_path_hash := h,
               calls := calls s @ es\<rparr>)"
  by (simp add: hook_once_def atexit_hooks_def)

lemma hook_once_info:
  "hook_once s \<Longrightarrow> storage_plugin_info s = Some info \<Longrightarrow>
   hook_once (s\<lparr>storage_plugin_info := Some info1\<rparr>)"
  by (simp add: hook_once_def atexit_hooks_def)

lemma hook_once_calls:
  "hook_once s \<Longrightarrow> E_atexit \<notin> set es \<Longrightarrow> hook_once (s\<lparr>calls := calls s @ es\<rparr>)"
  by (simp add: hook_once_def atexit_hooks_def)

lemma hook_once_get:
  assumes "hook_once s"
  shows "hook_once (snd (dlite_storage_plugin_get env name s))"
proof (cases "get_storage_plugin_info env s")
  case (Pair r s1)
  have h1: "hook_once s1" using assms Pair by (rule hook_once_get_info')
  show ?thesis
  proof (cases r)
    case None
    with Pair h1 show ?thesis by (simp add: get_without_registry)
  next
    case (Some info)
    then have g: "get_storage_plugin_info env s = (Some info, s1)" using Pair by simp
    have i1: "storage_plugin_info s1 = Some info" using g by (rule get_info_result)
    note eq = get_after_info [OF g, of name]
    show ?thesis
    proof (cases "plugin_get_api info name")
      case (Some api)
      show ?thesis
        unfolding eq get_hit [OF i1 Some] using h1 by (simp add: hook_once_calls)
    next
      case None
      show ?thesis
      proof (cases "\<exists>h. pathshash env (paths info) = Some h \<and>
                        h \<noteq> storage_plugin_path_hash s1")
        case True
        then obtain h where h: "pathshash env (paths info) = Some h"
          and ne: "h \<noteq> storage_plugin_path_hash s1" by blast
        show ?thesis
          unfolding eq get_reload_effect(1) [OF i1 None h ne]
          using h1 i1 by (intro hook_once_update) simp_all
      next
        case False
        then have sk: "pathshash env (paths info) = None \<or>
               pathshash env (paths info) = Some (storage_plugin_path_hash s1)"
          by (cases "pathshash env (paths info)") auto
        show ?thesis
          unfolding eq get_skip_effect(1) [OF i1 None sk]
          using h1 by (intro hook_once_calls) simp_all
      qed
    qed
  qed
qed

lemma hook_once_step:
  assumes "hook_once s"
  shows "hook_once (step env c s)"
proof (cases "get_storage_plugin_info env s")
  case (Pair r s1)
  have h1: "hook_once s1" using assms Pair by (rule hook_once_get_info')
  have i1: "storage_plugin_info s1 = r" using Pair by (rule get_info_result)
  show ?thesis
  proof (cases c)
    case (Get name)
    then show ?thesis using assms by (simp add: hook_once_get)
  next
    case Load_all
    show ?thesis
    proof (cases r)
      case None
      with Pair h1 Load_all show ?thesis by (simp add: dlite_storage_plugin_load_all_def)
    next
      case (Some info)
      with Pair have g: "get_storage_plugin_info env s = (Some info, s1)" by simp
      have "hook_once (s1\<lparr>storage_plugin_info := Some (plugin_load_all env info),
                          storage_plugin_path_hash := storage_plugin_path_hash s1,
                          calls := calls s1 @ [E_plugin_load_all]\<rparr>)"
        using h1 i1 Some by (intro hook_once_update) simp_all
      then show ?thesis using Load_all by (simp add: load_all_result [OF g])
    qed
  next
    case Unload_all
    show ?thesis
    proof (cases r)
      case None
      with Pair h1 Unload_all show ?thesis by (simp add: dlite_storage_plugin_unload_all_def)
    next
      case (Some info)
      with Pair have g: "get_storage_plugin_info env s = (Some info, s1)" by simp
      show ?thesis
        using Unload_all h1 i1 Some by (simp add: unload_all_result [OF g] hook_once_info)
    qed
  next
    case (Unload name)
    show ?thesis
      using Unload Pair h1 i1
      by (cases r) (auto simp: dlite_storage_plugin_unload_def hook_once_info split: prod.splits)
  next
    case Paths
    show ?thesis
      using Paths Pair h1
      by (cases r) (auto simp: dlite_storage_plugin_paths_def)
  next
    case (Path_insert n path)
    show ?thesis
      using Path_insert Pair h1 i1
      by (cases r)
         (auto simp: dlite_storage_plugin_path_insert_def hook_once_info split: prod.splits)
  next
    case (Path_append path)
    show ?thesis
      using Path_append Pair h1 i1
      by (cases r)
         (auto simp: dlite_storage_plugin_path_append_def hook_once_info split: prod.splits)
  next
    case (Path_appendn path n)
    show ?thesis
      using Path_appendn Pair h1 i1
      by (cases r)
         (auto simp: dlite_storage_plugin_path_appendn_def hook_once_info split: prod.splits)
  qed
qed

lemma hook_once_run: "hook_once s \<Longrightarrow> hook_once (run cs s)"
proof (induction cs arbitrary: s)
  case Nil
  then show ?case by simp
next
  case (Cons a cs)
  obtain env c where a: "a = (env, c)" by (cases a)
  show ?case
    unfolding a using Cons.prems by (simp add: Cons.IH hook_once_step)
qed

lemma hook_registered_once:
  "atexit_hooks (run cs initial_globals) =
     (if storage_plugin_info (run cs initial_globals) = None then 0 else 1)"
  using hook_once_run [OF hook_once_initial, of cs] by (simp add: hook_once_def)

subsection \<open>Resolution order\<close>

text \<open>
  Claim C1. \<^verbatim>\<open>dlite_storage_plugin_get\<close> resolves in order, the first success
  winning. If the name is registered, the call returns its descriptor at once: the only
  call made is the lookup, and registry and cached hash are as before. Otherwise, the
  registry being available, the digest of the current search path is computed; a full
  rescan, followed by the update of the cached hash to that digest and by one more
  lookup whose result decides the return, happens if and only if a digest was computed
  and differs from the cached hash. In the other case nothing but the lookup and the
  digest computation takes place, registry and cached hash stay, and the call does not
  return a value.
\<close>

theorem dlite_storage_plugin_get_resolution_order:
  "(storage_plugin_info s = Some info \<and> plugin_get_api info name = Some api \<longrightarrow>
      dlite_storage_plugin_get env name s =
        (Return (Some api), s\<lparr>calls := calls s @ [E_plugin_get_api name]\<rparr>))
 \<and> (get_storage_plugin_info env s = (Some info, s1) \<and> plugin_get_api info name = None \<and>
     dlite_storage_plugin_get env name s = (r, s2) \<longrightarrow>
      (if \<exists>h. pathshash env (paths info) = Some h \<and> h \<noteq> storage_plugin_path_hash s
       then calls s2 = calls s1 @ [E_plugin_get_api name, E_pathshash, E_plugin_load_all,
                                   E_plugin_get_api name]
          \<and> rescans s2 = rescans s + 1
          \<and> storage_plugin_info s2 = Some (plugin_load_all env info)
          \<and> pathshash env (paths info) = Some (storage_plugin_path_hash s2)
          \<and> (\<forall>a. r = Return a \<longleftrightarrow>
                   a \<noteq> None \<and> a = plugin_get_api (plugin_load_all env info) name)
       else calls s2 = calls s1 @ [E_plugin_get_api name, E_pathshash]
          \<and> rescans s2 = rescans s
          \<and> storage_plugin_info s2 = Some info
          \<and> storage_plugin_path_hash s2 = storage_plugin_path_hash s
          \<and> (\<forall>a. r \<noteq> Return a)))"
proof (intro conjI impI)
  assume "storage_plugin_info s = Some info \<and> plugin_get_api info name = Some api"
  then show "dlite_storage_plugin_get env name s =
        (Return (Some api), s\<lparr>calls := calls s @ [E_plugin_get_api name]\<rparr>)"
    by (simp add: get_hit)
next
  assume a: "get_storage_plugin_info env s = (Some info, s1) \<and> plugin_get_api info name = None \<and>
     dlite_storage_plugin_get env name s = (r, s2)"
  then have g: "get_storage_plugin_info env s = (Some info, s1)"
    and m: "plugin_get_api info name = None"
    and d: "dlite_storage_plugin_get env name s = (r, s2)" by simp_all
  have hs: "storage_plugin_path_hash s1 = storage_plugin_path_hash s"
    using g by (rule get_info_hash')
  have rs: "rescans s1 = rescans s"
    using g by (rule get_info_rescans')
  show "if \<exists>h. pathshash env (paths info) = Some h \<and> h \<noteq> storage_plugin_path_hash s
       then calls s2 = calls s1 @ [E_plugin_get_api name, E_pathshash, E_plugin_load_all,
                                   E_plugin_get_api name]
          \<and> rescans s2 = rescans s + 1
          \<and> storage_plugin_info s2 = Some (plugin_load_all env info)
          \<and> pathshash env (paths info) = Some (storage_plugin_path_hash s2)
          \<and> (\<forall>a. r = Return a \<longleftrightarrow>
                   a \<noteq> None \<and> a = plugin_get_api (plugin_load_all env info) name)
       else calls s2 = calls s1 @ [E_plugin_get_api name, E_pathshash]
          \<and> rescans s2 = rescans s
          \<and> storage_plugin_info s2 = Some info
          \<and> storage_plugin_path_hash s2 = storage_plugin_path_hash s
          \<and> (\<forall>a. r \<noteq> Return a)"
  proof (cases "\<exists>h. pathshash env (paths info) = Some h \<and> h \<noteq> storage_plugin_path_hash s")
    case True
    then obtain h where h: "pathshash env (paths info) = Some h"
      and ne: "h \<noteq> storage_plugin_path_hash s1" using hs by auto
    let ?s = "s1\<lparr>storage_plugin_info := Some (plugin_load_all env info),
                        storage_plugin_path_hash := h,
                        calls := calls s1 @ [E_plugin_get_api name, E_pathshash,
                                             E_plugin_load_all, E_plugin_get_api name]\<rparr>"
    have i: "storage_plugin_info ?s = Some (plugin_load_all env info)" by simp
    have "snd (dlite_storage_plugin_get env name s) = ?s"
      unfolding get_reload [OF g m h ne]
      by (cases "plugin_get_api (plugin_load_all env info) name")
         (simp_all only: option.case snd_conv cannot_find_state [OF i])
    then have s2: "s2 = ?s" using d by simp
    have "fst (dlite_storage_plugin_get env name s) =
            (case plugin_get_api (plugin_load_all env info) name of
               Some api \<Rightarrow> Return (Some api) | None \<Rightarrow> fst (cannot_find env name ?s))"
      unfolding get_reload [OF g m h ne]
      by (cases "plugin_get_api (plugin_load_all env info) name")
         (simp_all only: option.case fst_conv)
    then have r: "r = (case plugin_get_api (plugin_load_all env info) name of
                    Some api \<Rightarrow> Return (Some api) | None \<Rightarrow> fst (cannot_find env name ?s))"
      using d by simp
    have nr: "\<And>a. fst (cannot_find env name ?s) \<noteq> Return a"
      using cannot_find_no_return [OF i] by simp
    have "\<forall>a. r = Return a \<longleftrightarrow> a \<noteq> None \<and> a = plugin_get_api (plugin_load_all env info) name"
      unfolding r using nr by (auto split: option.splits)
    moreover have "rescans s2 = rescans s + 1"
      unfolding s2 using rs by (simp add: rescans_def)
    ultimately show ?thesis using True h s2 by simp
  next
    case False
    then have sk: "pathshash env (paths info) = None \<or>
         pathshash env (paths info) = Some (storage_plugin_path_hash s1)"
      using hs by (cases "pathshash env (paths info)") auto
    let ?s = "s1\<lparr>calls := calls s1 @ [E_plugin_get_api name, E_pathshash]\<rparr>"
    have i0: "storage_plugin_info s1 = Some info" using g by (rule get_info_result)
    then have i: "storage_plugin_info ?s = Some info" by simp
    have e: "(r, s2) = cannot_find env name ?s"
      using get_skip [OF g m sk] d by simp
    have s2: "s2 = ?s"
      using e cannot_find_state [OF i, of env name] by (metis snd_conv)
    have nr: "\<And>a. r \<noteq> Return a"
      using e cannot_find_no_return [OF i, of env name] by (metis fst_conv)
    have "rescans s2 = rescans s"
      unfolding s2 using rs by (simp add: rescans_def)
    then show ?thesis using False s2 nr hs i0 by simp
  qed
qed

theorem dlite_storage_plugin_get_resolution_order_witness:
  "storage_plugin_info demo_loaded = Some \<lparr>paths = [''/build/plugins''], apis = [(''json'', 1)]\<rparr>
   \<and> plugin_get_api \<lparr>paths = [''/build/plugins''], apis = [(''json'', 1)]\<rparr> ''json'' = Some (1 :: nat)
   \<and> dlite_storage_plugin_get demo_env ''json'' demo_loaded =
        (Return (Some 1), demo_loaded\<lparr>calls := calls demo_loaded @ [E_plugin_get_api ''json'']\<rparr>)
   \<and> get_storage_plugin_info demo_env initial_globals =
        (Some \<lparr>paths = [''/build/plugins''], apis = []\<rparr>,
         \<lparr>storage_plugin_info = Some \<lparr>paths = [''/build/plugins''], apis = []\<rparr>,
          storage_plugin_path_hash = replicate 32 0,
          calls = [E_plugin_info_create, E_atexit, E_add_dll_path]\<rparr>)
   \<and> plugin_get_api \<lparr>paths = [''/build/plugins''], apis = []\<rparr> ''json'' = (None :: nat option)
   \<and> dlite_storage_plugin_get demo_env ''json'' initial_globals = (Return (Some 1), demo_loaded)
   \<and> rescans demo_loaded = rescans (initial_globals :: nat globals) + 1
   \<and> pathshash demo_env [''/build/plugins''] = Some (storage_plugin_path_hash demo_loaded)
   \<and> plugin_get_api \<lparr>paths = [''/build/plugins''], apis = [(''json'', 1)]\<rparr> ''hdf5'' = (None :: nat option)
   \<and> rescans (snd (dlite_storage_plugin_get demo_env ''hdf5'' demo_loaded)) = rescans demo_loaded
   \<and> fst (dlite_storage_plugin_get demo_env ''hdf5'' demo_loaded) \<noteq> Return None"
proof -
  let ?i0 = "\<lparr>paths = [''/build/plugins''], apis = []\<rparr> :: nat PluginInfo"
  let ?i1 = "\<lparr>paths = [''/build/plugins''], apis = [(''json'', 1)]\<rparr> :: nat PluginInfo"
  let ?s1 = "\<lparr>storage_plugin_info = Some ?i0, storage_plugin_path_hash = replicate 32 0,
          calls = [E_plugin_info_create, E_atexit, E_add_dll_path]\<rparr> :: nat globals"
  have i: "storage_plugin_info demo_loaded = Some ?i1"
    by (simp add: demo_loaded_def)
  have k: "plugin_get_api ?i1 ''json'' = Some 1"
    by (simp add: plugin_get_api_def)
  have a: "dlite_storage_plugin_get demo_env ''json'' demo_loaded =
        (Return (Some 1), demo_loaded\<lparr>calls := calls demo_loaded @ [E_plugin_get_api ''json'']\<rparr>)"
    using dlite_storage_plugin_get_resolution_order [THEN conjunct1, THEN mp, OF conjI, OF i k] .
  have g: "get_storage_plugin_info demo_env initial_globals = (Some ?i0, ?s1)"
    by (simp add: get_storage_plugin_info_def plugin_info_create_def log_call_def
        plugin_path_extend_def demo_env_def initial_globals_def Let_def)
  have m: "plugin_get_api ?i0 ''json'' = None"
    by (simp add: plugin_get_api_def)
  note d = demo_loaded_reached
  have b: "rescans demo_loaded = rescans (initial_globals :: nat globals) + 1
         \<and> pathshash demo_env [''/build/plugins''] = Some (storage_plugin_path_hash demo_loaded)"
    using dlite_storage_plugin_get_resolution_order
            [THEN conjunct2, THEN mp, OF conjI, OF g conjI, OF m d]
    by (simp add: demo_env_def count_digest_def initial_globals_def)
  have g2: "get_storage_plugin_info demo_env demo_loaded = (Some ?i1, demo_loaded)"
    using i by (rule get_info_present)
  have m2: "plugin_get_api ?i1 ''hdf5'' = None"
    by (simp add: plugin_get_api_def)
  have d2: "dlite_storage_plugin_get demo_env ''hdf5'' demo_loaded =
         (fst (dlite_storage_plugin_get demo_env ''hdf5'' demo_loaded),
          snd (dlite_storage_plugin_get demo_env ''hdf5'' demo_loaded))"
    by simp
  have c: "rescans (snd (dlite_storage_plugin_get demo_env ''hdf5'' demo_loaded)) = rescans demo_loaded
         \<and> fst (dlite_storage_plugin_get demo_env ''hdf5'' demo_loaded) \<noteq> Return None"
    using dlite_storage_plugin_get_resolution_order
            [THEN conjunct2, THEN mp, OF conjI, OF g2 conjI, OF m2 d2]
    by (simp add: demo_env_def count_digest_def demo_loaded_def)
  from i k a g m d b [THEN conjunct1] b [THEN conjunct2] m2 c [THEN conjunct1] c [THEN conjunct2]
  show ?thesis by (intro conjI) assumption+
qed

subsection \<open>The cached hash and the explicit rescan\<close>

text \<open>
  The cached hash is written in one place only, after the rescan in
  \<^verbatim>\<open>dlite_storage_plugin_get\<close>: a resolution that changes it has performed a rescan
  and leaves it equal to the digest of the search path, and no other operation changes
  it.
\<close>

lemma get_writes_hash_after_rescan:
  assumes "storage_plugin_path_hash (snd (dlite_storage_plugin_get env name s)) \<noteq>
           storage_plugin_path_hash s"
  shows "rescans (snd (dlite_storage_plugin_get env name s)) = rescans s + 1
       \<and> (\<exists>info. storage_plugin_info (snd (dlite_storage_plugin_get env name s)) = Some info \<and>
            pathshash env (paths info) =
              Some (storage_plugin_path_hash (snd (dlite_storage_plugin_get env name s))))"
proof (cases "get_storage_plugin_info env s")
  case (Pair r s1)
  have hs: "storage_plugin_path_hash s1 = storage_plugin_path_hash s"
    using Pair by (rule get_info_hash')
  have rs: "rescans s1 = rescans s"
    using Pair by (rule get_info_rescans')
  show ?thesis
  proof (cases r)
    case None
    with Pair assms hs show ?thesis by (simp add: get_without_registry)
  next
    case (Some info)
    then have g: "get_storage_plugin_info env s = (Some info, s1)" using Pair by simp
    have i1: "storage_plugin_info s1 = Some info" using g by (rule get_info_result)
    note eq = get_after_info [OF g, of name]
    show ?thesis
    proof (cases "plugin_get_api info name")
      case (Some api)
      from assms hs show ?thesis
        unfolding eq get_hit [OF i1 Some] by simp
    next
      case None
      show ?thesis
      proof (cases "\<exists>h. pathshash env (paths info) = Some h \<and>
                        h \<noteq> storage_plugin_path_hash s1")
        case True
        then obtain h where h: "pathshash env (paths info) = Some h"
          and ne: "h \<noteq> storage_plugin_path_hash s1" by blast
        show ?thesis
          unfolding eq get_reload_effect(1) [OF i1 None h ne]
          using h rs by (simp add: plugin_load_all_paths rescans_def)
      next
        case False
        then have sk: "pathshash env (paths info) = None \<or>
               pathshash env (paths info) = Some (storage_plugin_path_hash s1)"
          by (cases "pathshash env (paths info)") auto
        from assms hs show ?thesis
          unfolding eq get_skip_effect(1) [OF i1 None sk] by simp
      qed
    qed
  qed
qed

lemma other_operations_keep_hash:
  "storage_plugin_path_hash (snd (dlite_storage_plugin_load_all env s)) = storage_plugin_path_hash s"
  "storage_plugin_path_hash (dlite_storage_plugin_unload_all env s) = storage_plugin_path_hash s"
  "storage_plugin_path_hash (snd (dlite_storage_plugin_unload env name s)) = storage_plugin_path_hash s"
  "storage_plugin_path_hash (snd (dlite_storage_plugin_paths env s)) = storage_plugin_path_hash s"
  "storage_plugin_path_hash (snd (dlite_storage_plugin_path_insert env n p s)) = storage_plugin_path_hash s"
  "storage_plugin_path_hash (snd (dlite_storage_plugin_path_append env p s)) = storage_plugin_path_hash s"
  "storage_plugin_path_hash (snd (dlite_storage_plugin_path_appendn env p k s)) = storage_plugin_path_hash s"
  using get_info_hash [of env s]
  by (auto simp: dlite_storage_plugin_load_all_def dlite_storage_plugin_unload_all_def
      dlite_storage_plugin_unload_def dlite_storage_plugin_paths_def
      dlite_storage_plugin_path_insert_def dlite_storage_plugin_path_append_def
      dlite_storage_plugin_path_appendn_def log_call_def
      split: prod.splits option.splits)

text \<open>
  Claim C2. The cached hash is meant to be the digest of the search path at the last
  full rescan. \<^verbatim>\<open>dlite_storage_plugin_load_all\<close> does not keep to this: in a fresh
  process with the search path \<^verbatim>\<open>/build/plugins\<close> it performs a full rescan and
  returns 0, and the cached hash is still the zero array, not the digest of the path
  scanned; the next resolution of a name that is not there scans a second time although
  no path has changed.
\<close>

theorem dlite_storage_plugin_load_all_leaves_hash:
  "dlite_storage_plugin_load_all demo_env initial_globals = (0, demo_scanned)
   \<and> rescans demo_scanned = rescans (initial_globals :: nat globals) + 1
   \<and> storage_plugin_info demo_scanned =
       Some \<lparr>paths = [''/build/plugins''], apis = [(''json'', 1)]\<rparr>
   \<and> storage_plugin_path_hash demo_scanned = replicate 32 0
   \<and> pathshash demo_env [''/build/plugins''] = Some (replicate 32 15)
   \<and> pathshash demo_env [''/build/plugins''] \<noteq> Some (storage_plugin_path_hash demo_scanned)
   \<and> rescans (snd (dlite_storage_plugin_get demo_env ''hdf5'' demo_scanned)) =
       rescans demo_scanned + 1"
  by (simp add: model_defs demo_defs demo_scanned_def Let_def)

subsection \<open>The hash test before a rescan\<close>

text \<open>
  Claim C3, as amended. After a resolution of a name that was not registered, a further
  resolution of a name that is still not registered, the search path and the digest
  function being the same, triggers no rescan. After a path has been appended, the next
  resolution triggers exactly one rescan provided that the name it asks for is not
  registered and that the digest of the extended search path differs from the cached
  hash; the calls it makes are then the lookup, the digest, one rescan and one lookup.
\<close>

theorem hash_gated_rescan:
  "(get_storage_plugin_info env s = (Some info, s1) \<and> plugin_get_api info n1 = None \<and>
    pathshash env2 = pathshash env \<and>
    storage_plugin_info (snd (dlite_storage_plugin_get env n1 s)) = Some info2 \<and>
    plugin_get_api info2 n2 = None \<longrightarrow>
      rescans (snd (dlite_storage_plugin_get env2 n2 (snd (dlite_storage_plugin_get env n1 s)))) =
      rescans (snd (dlite_storage_plugin_get env n1 s)))
   \<and> (storage_plugin_info s = Some info \<and> plugin_get_api info name = None \<and>
      pathshash env (paths info @ [p]) = Some h \<and> h \<noteq> storage_plugin_path_hash s \<longrightarrow>
        fst (dlite_storage_plugin_path_append env p s) = int (length (paths info))
      \<and> rescans (snd (dlite_storage_plugin_get env name
                        (snd (dlite_storage_plugin_path_append env p s)))) =
          rescans (snd (dlite_storage_plugin_path_append env p s)) + 1
      \<and> calls (snd (dlite_storage_plugin_get env name
                      (snd (dlite_storage_plugin_path_append env p s)))) =
          calls s @ [E_plugin_get_api name, E_pathshash, E_plugin_load_all,
                     E_plugin_get_api name])"
proof (rule conjI; rule impI)
  assume a: "get_storage_plugin_info env s = (Some info, s1) \<and> plugin_get_api info n1 = None \<and>
    pathshash env2 = pathshash env \<and>
    storage_plugin_info (snd (dlite_storage_plugin_get env n1 s)) = Some info2 \<and>
    plugin_get_api info2 n2 = None"
  then have g: "get_storage_plugin_info env s = (Some info, s1)"
    and m: "plugin_get_api info n1 = None"
    and e: "pathshash env2 = pathshash env"
    and i2: "storage_plugin_info (snd (dlite_storage_plugin_get env n1 s)) = Some info2"
    and m2: "plugin_get_api info2 n2 = None" by simp_all
  have i1: "storage_plugin_info s1 = Some info" using g by (rule get_info_result)
  have eq: "dlite_storage_plugin_get env n1 s = dlite_storage_plugin_get env n1 s1"
    using g by (rule get_after_info)
  from get_miss_then_current [OF i1 m, of env] i2
  have "pathshash env (paths info2) = None \<or>
        pathshash env (paths info2) =
          Some (storage_plugin_path_hash (snd (dlite_storage_plugin_get env n1 s)))"
    unfolding eq by auto
  then have sk: "pathshash env2 (paths info2) = None \<or>
        pathshash env2 (paths info2) =
          Some (storage_plugin_path_hash (snd (dlite_storage_plugin_get env n1 s)))"
    unfolding e .
  show "rescans (snd (dlite_storage_plugin_get env2 n2 (snd (dlite_storage_plugin_get env n1 s)))) =
      rescans (snd (dlite_storage_plugin_get env n1 s))"
    using i2 m2 sk by (rule get_skip_effect(2))
next
  assume a: "storage_plugin_info s = Some info \<and> plugin_get_api info name = None \<and>
      pathshash env (paths info @ [p]) = Some h \<and> h \<noteq> storage_plugin_path_hash s"
  then have i: "storage_plugin_info s = Some info"
    and m: "plugin_get_api info name = None"
    and h: "pathshash env (paths info @ [p]) = Some h"
    and ne: "h \<noteq> storage_plugin_path_hash s" by simp_all
  let ?a = "s\<lparr>storage_plugin_info := Some (info\<lparr>paths := paths info @ [p]\<rparr>)\<rparr>"
  have g: "get_storage_plugin_info env s = (Some info, s)"
    using i by (rule get_info_present)
  have ap: "dlite_storage_plugin_path_append env p s = (int (length (paths info)), ?a)"
    using g by (rule path_append_result)
  have ia: "storage_plugin_info ?a = Some (info\<lparr>paths := paths info @ [p]\<rparr>)" by simp
  have ma: "plugin_get_api (info\<lparr>paths := paths info @ [p]\<rparr>) name = None"
    using m by (simp add: plugin_get_api_def)
  have ha: "pathshash env (paths (info\<lparr>paths := paths info @ [p]\<rparr>)) = Some h"
    using h by simp
  have na: "h \<noteq> storage_plugin_path_hash ?a" using ne by simp
  note eff = get_reload_effect [OF ia ma ha na]
  show "fst (dlite_storage_plugin_path_append env p s) = int (length (paths info))
      \<and> rescans (snd (dlite_storage_plugin_get env name
                        (snd (dlite_storage_plugin_path_append env p s)))) =
          rescans (snd (dlite_storage_plugin_path_append env p s)) + 1
      \<and> calls (snd (dlite_storage_plugin_get env name
                      (snd (dlite_storage_plugin_path_append env p s)))) =
          calls s @ [E_plugin_get_api name, E_pathshash, E_plugin_load_all,
                     E_plugin_get_api name]"
    using eff(2) by (simp add: ap eff(1))
qed

theorem hash_gated_rescan_witness:
  "get_storage_plugin_info demo_env initial_globals =
        (Some \<lparr>paths = [''/build/plugins''], apis = []\<rparr>,
         \<lparr>storage_plugin_info = Some \<lparr>paths = [''/build/plugins''], apis = []\<rparr>,
          storage_plugin_path_hash = replicate 32 0,
          calls = [E_plugin_info_create, E_atexit, E_add_dll_path]\<rparr>)
   \<and> plugin_get_api \<lparr>paths = [''/build/plugins''], apis = []\<rparr> ''json'' = (None :: nat option)
   \<and> storage_plugin_info (snd (dlite_storage_plugin_get demo_env ''json'' initial_globals)) =
        Some \<lparr>paths = [''/build/plugins''], apis = [(''json'', 1)]\<rparr>
   \<and> plugin_get_api \<lparr>paths = [''/build/plugins''], apis = [(''json'', 1 :: nat)]\<rparr> ''hdf5'' = None
   \<and> rescans (snd (dlite_storage_plugin_get demo_env ''json'' initial_globals)) = 1
   \<and> rescans (snd (dlite_storage_plugin_get demo_env ''hdf5''
                     (snd (dlite_storage_plugin_get demo_env ''json'' initial_globals)))) = 1
   \<and> storage_plugin_info demo_loaded =
        Some \<lparr>paths = [''/build/plugins''], apis = [(''json'', 1)]\<rparr>
   \<and> pathshash demo_env [''/build/plugins'', ''/extra''] = Some (replicate 32 22)
   \<and> replicate 32 22 \<noteq> storage_plugin_path_hash demo_loaded
   \<and> fst (dlite_storage_plugin_path_append demo_env ''/extra'' demo_loaded) = 1
   \<and> rescans (snd (dlite_storage_plugin_get demo_env ''hdf5''
                     (snd (dlite_storage_plugin_path_append demo_env ''/extra'' demo_loaded)))) =
       rescans (snd (dlite_storage_plugin_path_append demo_env ''/extra'' demo_loaded)) + 1"
proof -
  let ?i0 = "\<lparr>paths = [''/build/plugins''], apis = []\<rparr> :: nat PluginInfo"
  let ?i1 = "\<lparr>paths = [''/build/plugins''], apis = [(''json'', 1)]\<rparr> :: nat PluginInfo"
  let ?s1 = "\<lparr>storage_plugin_info = Some ?i0, storage_plugin_path_hash = replicate 32 0,
          calls = [E_plugin_info_create, E_atexit, E_add_dll_path]\<rparr> :: nat globals"
  have g: "get_storage_plugin_info demo_env initial_globals = (Some ?i0, ?s1)"
    by (simp add: get_storage_plugin_info_def plugin_info_create_def log_call_def
        plugin_path_extend_def demo_env_def initial_globals_def Let_def)
  have m: "plugin_get_api ?i0 ''json'' = None"
    by (simp add: plugin_get_api_def)
  have i2: "storage_plugin_info (snd (dlite_storage_plugin_get demo_env ''json'' initial_globals)) =
        Some ?i1"
    by (simp add: demo_loaded_reached demo_loaded_def)
  have m2: "plugin_get_api ?i1 ''hdf5'' = None"
    by (simp add: plugin_get_api_def)
  have r1: "rescans (snd (dlite_storage_plugin_get demo_env ''json'' initial_globals)) = 1"
    by (simp add: demo_loaded_reached demo_loaded_def rescans_def)
  have e: "pathshash demo_env = pathshash demo_env" by simp
  have r2: "rescans (snd (dlite_storage_plugin_get demo_env ''hdf5''
                     (snd (dlite_storage_plugin_get demo_env ''json'' initial_globals)))) = 1"
    using hash_gated_rescan [THEN conjunct1, THEN mp, OF conjI, OF g conjI, OF m conjI,
                             OF e conjI, OF i2 m2] r1
    by simp
  have i: "storage_plugin_info demo_loaded = Some ?i1"
    by (simp add: demo_loaded_def)
  have h: "pathshash demo_env (paths ?i1 @ [''/extra'']) = Some (replicate 32 22)"
    by (simp add: demo_defs)
  have ne: "replicate 32 22 \<noteq> storage_plugin_path_hash demo_loaded"
    by (simp add: demo_defs)
  note b = hash_gated_rescan [THEN conjunct2, THEN mp, OF conjI, OF i conjI, OF m2 conjI, OF h ne]
  have b1: "fst (dlite_storage_plugin_path_append demo_env ''/extra'' demo_loaded) = 1"
    using b [THEN conjunct1] by simp
  note b2 = b [THEN conjunct2, THEN conjunct1]
  from g m i2 m2 r1 r2 i h ne b1 b2 show ?thesis by simp
qed

text \<open>
  The claim as it was stated speaks of every resolution. A resolution that finds its
  name in the mapping returns before the hash is looked at: after \<^verbatim>\<open>/extra\<close> has
  been appended, the resolution of the registered \<^verbatim>\<open>json\<close> triggers no rescan
  although the digest of the path has changed, and it leaves the cached hash behind, so
  that the resolution of the missing \<^verbatim>\<open>netcdf\<close> that follows it, with the path
  unchanged in between, triggers the second rescan of the run.
\<close>

theorem next_resolve_after_append_counterexample:
  "dlite_storage_plugin_get demo_env ''json'' initial_globals = (Return (Some 1), demo_loaded)
   \<and> fst (dlite_storage_plugin_path_append demo_env ''/extra'' demo_loaded) = 1
   \<and> pathshash demo_env [''/build/plugins'', ''/extra''] \<noteq>
       Some (storage_plugin_path_hash demo_loaded)
   \<and> fst (dlite_storage_plugin_get demo_env ''json''
            (snd (dlite_storage_plugin_path_append demo_env ''/extra'' demo_loaded))) =
       Return (Some 1)
   \<and> rescans (snd (dlite_storage_plugin_get demo_env ''json''
                     (snd (dlite_storage_plugin_path_append demo_env ''/extra'' demo_loaded)))) =
       rescans (snd (dlite_storage_plugin_path_append demo_env ''/extra'' demo_loaded))
   \<and> rescans (snd (dlite_storage_plugin_get demo_env ''json''
                     (snd (dlite_storage_plugin_path_append demo_env ''/extra'' demo_loaded)))) \<noteq>
       rescans (snd (dlite_storage_plugin_path_append demo_env ''/extra'' demo_loaded)) + 1
   \<and> rescans (snd (dlite_storage_plugin_get demo_env ''netcdf''
                     (snd (dlite_storage_plugin_get demo_env ''json''
                            (snd (dlite_storage_plugin_path_append demo_env ''/extra''
                                   demo_loaded)))))) =
       rescans (snd (dlite_storage_plugin_get demo_env ''json''
                      (snd (dlite_storage_plugin_path_append demo_env ''/extra'' demo_loaded)))) + 1"
  by (simp add: model_defs demo_defs Let_def)

subsection \<open>Unloading\<close>

text \<open>
  Claim C4, as amended. \<^verbatim>\<open>dlite_storage_plugin_unload_all\<close> unloads every registered entry, so
  that the mapping is empty afterwards, and leaves the cached hash (and the number of
  rescans) as it was. Hence, while the search path is unchanged, that is, while its
  digest is the cached hash, every later resolution of whatever name performs no rescan
  and fails: it does not return, and with a non-empty search path the process exits
  with status 1; the globals stay as they are, so this repeats. An explicit
  \<^verbatim>\<open>dlite_storage_plugin_load_all\<close> rescans, after which a name that a file of the
  scan reports resolves again; and after a path has been appended whose digest differs
  from the cached hash, the next resolution rescans.
\<close>

theorem dlite_storage_plugin_unload_all_keeps_hash:
  assumes "get_storage_plugin_info env s = (Some info, s1)"
  shows "dlite_storage_plugin_unload_all env s =
           s1\<lparr>storage_plugin_info := Some (info\<lparr>apis := []\<rparr>)\<rparr>
       \<and> storage_plugin_path_hash (dlite_storage_plugin_unload_all env s) =
           storage_plugin_path_hash s
       \<and> rescans (dlite_storage_plugin_unload_all env s) = rescans s
       \<and> (\<forall>env2 name.
             pathshash env2 (paths info) = Some (storage_plugin_path_hash s) \<longrightarrow>
               rescans (snd (dlite_storage_plugin_get env2 name
                               (dlite_storage_plugin_unload_all env s))) = rescans s
             \<and> (\<forall>a. fst (dlite_storage_plugin_get env2 name
                            (dlite_storage_plugin_unload_all env s)) \<noteq> Return a)
             \<and> (paths info \<noteq> [] \<longrightarrow>
                  (\<exists>msg. fst (dlite_storage_plugin_get env2 name
                                 (dlite_storage_plugin_unload_all env s)) = Exit 1 msg))
             \<and> storage_plugin_info (snd (dlite_storage_plugin_get env2 name
                                            (dlite_storage_plugin_unload_all env s))) =
                 Some (info\<lparr>apis := []\<rparr>)
             \<and> storage_plugin_path_hash (snd (dlite_storage_plugin_get env2 name
                                                 (dlite_storage_plugin_unload_all env s))) =
                 storage_plugin_path_hash s)
       \<and> (\<forall>env2.
             rescans (snd (dlite_storage_plugin_load_all env2
                             (dlite_storage_plugin_unload_all env s))) = rescans s + 1
           \<and> (\<forall>f name api.
                 f \<in> set (scan_files env2 (paths info)) \<and> probe env2 f = Some (name, api) \<longrightarrow>
                 (\<exists>api'. fst (dlite_storage_plugin_get env2 name
                                 (snd (dlite_storage_plugin_load_all env2
                                         (dlite_storage_plugin_unload_all env s)))) =
                         Return (Some api'))))
       \<and> (\<forall>env2 p h name.
             pathshash env2 (paths info @ [p]) = Some h \<and> h \<noteq> storage_plugin_path_hash s \<longrightarrow>
               rescans (snd (dlite_storage_plugin_get env2 name
                               (snd (dlite_storage_plugin_path_append env2 p
                                       (dlite_storage_plugin_unload_all env s))))) =
               rescans s + 1)"
proof -
  let ?u = "s1\<lparr>storage_plugin_info := Some (info\<lparr>apis := []\<rparr>)\<rparr>"
  let ?e = "info\<lparr>apis := []\<rparr>"
  have u: "dlite_storage_plugin_unload_all env s = ?u"
    using assms by (rule unload_all_result)
  have hs: "storage_plugin_path_hash ?u = storage_plugin_path_hash s"
    using get_info_hash' [OF assms] by simp
  have rs: "rescans ?u = rescans s"
    using get_info_rescans' [OF assms] by simp
  have i: "storage_plugin_info ?u = Some ?e" by simp
  have m: "plugin_get_api ?e name = None" for name
    by (simp add: plugin_get_api_def)
  have pe: "paths ?e = paths info" by simp
  have A: "rescans (snd (dlite_storage_plugin_get env2 name ?u)) = rescans s
         \<and> (\<forall>a. fst (dlite_storage_plugin_get env2 name ?u) \<noteq> Return a)
         \<and> (paths info \<noteq> [] \<longrightarrow> (\<exists>msg. fst (dlite_storage_plugin_get env2 name ?u) = Exit 1 msg))
         \<and> storage_plugin_info (snd (dlite_storage_plugin_get env2 name ?u)) = Some ?e
         \<and> storage_plugin_path_hash (snd (dlite_storage_plugin_get env2 name ?u)) =
             storage_plugin_path_hash s"
    if c: "pathshash env2 (paths info) = Some (storage_plugin_path_hash s)" for env2 name
  proof -
    have sk: "pathshash env2 (paths ?e) = None \<or>
              pathshash env2 (paths ?e) = Some (storage_plugin_path_hash ?u)"
      using c hs by simp
    note eff = get_skip_effect [OF i m sk]
    have "paths info \<noteq> [] \<longrightarrow> (\<exists>msg. fst (dlite_storage_plugin_get env2 name ?u) = Exit 1 msg)"
      using eff(4) pe by simp
    then show ?thesis
      using eff(2) eff(3) rs hs unfolding eff(1) by simp
  qed
  have B: "rescans (snd (dlite_storage_plugin_load_all env2 ?u)) = rescans s + 1
         \<and> (\<forall>f name api.
                 f \<in> set (scan_files env2 (paths info)) \<and> probe env2 f = Some (name, api) \<longrightarrow>
                 (\<exists>api'. fst (dlite_storage_plugin_get env2 name
                                 (snd (dlite_storage_plugin_load_all env2 ?u))) =
                         Return (Some api')))" for env2
  proof -
    let ?l = "?u\<lparr>storage_plugin_info := Some (plugin_load_all env2 ?e),
                 calls := calls ?u @ [E_plugin_load_all]\<rparr>"
    have gu: "get_storage_plugin_info env2 ?u = (Some ?e, ?u)"
      using i by (rule get_info_present)
    have l: "snd (dlite_storage_plugin_load_all env2 ?u) = ?l"
      unfolding load_all_result [OF gu] by simp
    have r: "rescans ?l = rescans s + 1"
      using rs by (simp add: rescans_def)
    have il: "storage_plugin_info ?l = Some (plugin_load_all env2 ?e)" by simp
    have "\<exists>api'. fst (dlite_storage_plugin_get env2 name ?l) = Return (Some api')"
      if f: "f \<in> set (scan_files env2 (paths info)) \<and> probe env2 f = Some (name, api)"
      for f name api
    proof -
      from f load_files_registers [of f "scan_files env2 (paths info)" env2 name api "[]"]
      obtain api' where
        "map_of (load_files env2 (scan_files env2 (paths info)) []) name = Some api'"
        by blast
      then have "plugin_get_api (plugin_load_all env2 ?e) name = Some api'"
        by (simp add: plugin_get_api_def plugin_load_all_def)
      from get_hit [OF il this, of env2] show ?thesis by simp
    qed
    then show ?thesis unfolding l using r by blast
  qed
  have C: "rescans (snd (dlite_storage_plugin_get env2 name
                               (snd (dlite_storage_plugin_path_append env2 p ?u)))) =
               rescans s + 1"
    if c: "pathshash env2 (paths info @ [p]) = Some h \<and> h \<noteq> storage_plugin_path_hash s"
    for env2 p h name
  proof -
    let ?a = "?u\<lparr>storage_plugin_info := Some (?e\<lparr>paths := paths ?e @ [p]\<rparr>)\<rparr>"
    have gu: "get_storage_plugin_info env2 ?u = (Some ?e, ?u)"
      using i by (rule get_info_present)
    have a: "snd (dlite_storage_plugin_path_append env2 p ?u) = ?a"
      unfolding path_append_result [OF gu] by simp
    have ia: "storage_plugin_info ?a = Some (?e\<lparr>paths := paths ?e @ [p]\<rparr>)" by simp
    have ma: "plugin_get_api (?e\<lparr>paths := paths ?e @ [p]\<rparr>) name = None"
      by (simp add: plugin_get_api_def)
    have ha: "pathshash env2 (paths (?e\<lparr>paths := paths ?e @ [p]\<rparr>)) = Some h"
      using c by simp
    have na: "h \<noteq> storage_plugin_path_hash ?a"
      using c hs by simp
    have "rescans ?a = rescans s" using rs by simp
    with get_reload_effect(2) [OF ia ma ha na] show ?thesis
      unfolding a by simp
  qed
  show ?thesis
    unfolding u using hs rs A B C by (intro conjI allI impI) blast+
qed

theorem dlite_storage_plugin_unload_all_keeps_hash_witness:
  "get_storage_plugin_info demo_env demo_loaded =
     (Some \<lparr>paths = [''/build/plugins''], apis = [(''json'', 1)]\<rparr>, demo_loaded)
   \<and> dlite_storage_plugin_unload_all demo_env demo_loaded =
       demo_loaded\<lparr>storage_plugin_info := Some \<lparr>paths = [''/build/plugins''], apis = []\<rparr>\<rparr>
   \<and> pathshash demo_env [''/build/plugins''] = Some (storage_plugin_path_hash demo_loaded)
   \<and> rescans (snd (dlite_storage_plugin_get demo_env ''json''
                     (dlite_storage_plugin_unload_all demo_env demo_loaded))) = rescans demo_loaded
   \<and> (\<exists>msg. fst (dlite_storage_plugin_get demo_env ''json''
                    (dlite_storage_plugin_unload_all demo_env demo_loaded)) = Exit 1 msg)
   \<and> ''/build/plugins/json.so'' \<in> set (scan_files demo_env [''/build/plugins''])
   \<and> probe demo_env ''/build/plugins/json.so'' = Some (''json'', 1)
   \<and> (\<exists>api'. fst (dlite_storage_plugin_get demo_env ''json''
                     (snd (dlite_storage_plugin_load_all demo_env
                            (dlite_storage_plugin_unload_all demo_env demo_loaded)))) =
               Return (Some api'))
   \<and> pathshash demo_env [''/build/plugins'', ''/extra''] = Some (replicate 32 22)
   \<and> replicate 32 22 \<noteq> storage_plugin_path_hash demo_loaded
   \<and> rescans (snd (dlite_storage_plugin_get demo_env ''json''
                     (snd (dlite_storage_plugin_path_append demo_env ''/extra''
                            (dlite_storage_plugin_unload_all demo_env demo_loaded))))) =
       rescans demo_loaded + 1"
proof -
  let ?i = "\<lparr>paths = [''/build/plugins''], apis = [(''json'', 1)]\<rparr> :: nat PluginInfo"
  have g: "get_storage_plugin_info demo_env demo_loaded = (Some ?i, demo_loaded)"
    by (simp add: get_info_present demo_loaded_def)
  note t = dlite_storage_plugin_unload_all_keeps_hash [OF g]
  have u: "dlite_storage_plugin_unload_all demo_env demo_loaded =
       demo_loaded\<lparr>storage_plugin_info := Some \<lparr>paths = [''/build/plugins''], apis = []\<rparr>\<rparr>"
    using t [THEN conjunct1] by simp
  have c: "pathshash demo_env (paths ?i) = Some (storage_plugin_path_hash demo_loaded)"
    by (simp add: demo_defs)
  note t3 = t [THEN conjunct2, THEN conjunct2, THEN conjunct2, THEN conjunct1,
               THEN spec, THEN spec, THEN mp, OF c]
  have ne: "paths ?i \<noteq> []" by simp
  have r: "rescans (snd (dlite_storage_plugin_get demo_env ''json''
                     (dlite_storage_plugin_unload_all demo_env demo_loaded))) = rescans demo_loaded"
    using t3 [THEN conjunct1] .
  have x: "\<exists>msg. fst (dlite_storage_plugin_get demo_env ''json''
                    (dlite_storage_plugin_unload_all demo_env demo_loaded)) = Exit 1 msg"
    using t3 [THEN conjunct2, THEN conjunct2, THEN conjunct1, THEN mp, OF ne] .
  have f: "''/build/plugins/json.so'' \<in> set (scan_files demo_env (paths ?i))
           \<and> probe demo_env ''/build/plugins/json.so'' = Some (''json'', 1)"
    by (simp add: scan_files_def demo_env_def)
  have l: "\<exists>api'. fst (dlite_storage_plugin_get demo_env ''json''
                     (snd (dlite_storage_plugin_load_all demo_env
                            (dlite_storage_plugin_unload_all demo_env demo_loaded)))) =
               Return (Some api')"
    using t [THEN conjunct2, THEN conjunct2, THEN conjunct2, THEN conjunct2, THEN conjunct1,
             THEN spec, THEN conjunct2, THEN spec, THEN spec, THEN spec, THEN mp, OF f] .
  have h: "pathshash demo_env (paths ?i @ [''/extra'']) = Some (replicate 32 22)
           \<and> replicate 32 22 \<noteq> storage_plugin_path_hash demo_loaded"
    by (simp add: demo_defs)
  have a: "rescans (snd (dlite_storage_plugin_get demo_env ''json''
                     (snd (dlite_storage_plugin_path_append demo_env ''/extra''
                            (dlite_storage_plugin_unload_all demo_env demo_loaded))))) =
       rescans demo_loaded + 1"
    using t [THEN conjunct2, THEN conjunct2, THEN conjunct2, THEN conjunct2, THEN conjunct2,
             THEN spec, THEN spec, THEN spec, THEN spec, THEN mp, OF h] .
  from g u c r x f l h a show ?thesis by simp
qed

text \<open>
  The claim as it was stated asks for no rescan after \<^verbatim>\<open>unload_all\<close> whenever the
  search path has not changed. Two runs on the installation above show that the
  cached hash, not the path, decides. In the first the plugins were loaded by
  \<^verbatim>\<open>dlite_storage_plugin_load_all\<close>, which leaves the cached hash at zero; in the
  second a path was appended and the next resolution was served from the mapping, which
  leaves the cached hash behind the path. In both, the resolution after
  \<^verbatim>\<open>unload_all\<close> rescans and returns the descriptor.
\<close>

theorem unload_all_then_rescan_counterexample:
  "dlite_storage_plugin_load_all demo_env initial_globals = (0, demo_scanned)
   \<and> dlite_storage_plugin_get demo_env ''json'' (dlite_storage_plugin_unload_all demo_env demo_scanned)
       = (Return (Some 1),
          demo_scanned\<lparr>storage_plugin_path_hash := replicate 32 15,
                        calls := calls demo_scanned @
                          [E_plugin_get_api ''json'', E_pathshash, E_plugin_load_all,
                           E_plugin_get_api ''json'']\<rparr>)
   \<and> rescans (snd (dlite_storage_plugin_get demo_env ''json''
                     (dlite_storage_plugin_unload_all demo_env demo_scanned))) =
       rescans (dlite_storage_plugin_unload_all demo_env demo_scanned) + 1
   \<and> dlite_storage_plugin_get demo_env ''json'' initial_globals = (Return (Some 1), demo_loaded)
   \<and> fst (dlite_storage_plugin_get demo_env ''json''
            (snd (dlite_storage_plugin_path_append demo_env ''/extra'' demo_loaded))) =
       Return (Some 1)
   \<and> fst (dlite_storage_plugin_get demo_env ''json''
            (dlite_storage_plugin_unload_all demo_env
              (snd (dlite_storage_plugin_get demo_env ''json''
                     (snd (dlite_storage_plugin_path_append demo_env ''/extra'' demo_loaded))))))
       = Return (Some 1)
   \<and> rescans (snd (dlite_storage_plugin_get demo_env ''json''
            (dlite_storage_plugin_unload_all demo_env
              (snd (dlite_storage_plugin_get demo_env ''json''
                     (snd (dlite_storage_plugin_path_append demo_env ''/extra'' demo_loaded)))))))
       = rescans (dlite_storage_plugin_unload_all demo_env
              (snd (dlite_storage_plugin_get demo_env ''json''
                     (snd (dlite_storage_plugin_path_append demo_env ''/extra'' demo_loaded))))) + 1"
  by (simp add: model_defs demo_defs demo_scanned_def Let_def)

subsection \<open>The failure message\<close>

text \<open>
  Claim C5, as amended. For every resolution that fails with a registry whose search
  path is not empty, the process exits with status 1 and a message that consists of a
  first line with the requested name in double quotes, then one line for every
  directory of the search path, in order, and, only if the search path has at most one
  directory, the question whether the environment variable is set. The question names
  \<^verbatim>\<open>DLITE_STORAGE_PLUGIN_DIRS\<close> in the build tree mode and
  \<^verbatim>\<open>DLITE_ROOT or DLITE_STORAGE_PLUGIN_DIRS\<close> in the installed mode. So the message
  contains the name and every directory, and with at most one directory the name of
  the variable.
\<close>

theorem cannot_find_message:
  assumes "get_storage_plugin_info env s = (Some info, s1)"
    and "paths info \<noteq> []"
    and "\<forall>a. fst (dlite_storage_plugin_get env name s) \<noteq> Return a"
  shows "\<exists>msg. fst (dlite_storage_plugin_get env name s) = Exit 1 msg
      \<and> msg = ''cannot find storage plugin for driver '' @ [CHR 0x22] @ name @ [CHR 0x22] @
              '' in search path:'' @ [CHR 0x0A] @
              concat (map (\<lambda>p. ''    '' @ p @ [CHR 0x0A]) (paths info)) @
              (if length (paths info) \<le> 1
               then ''Is the '' @ (if dlite_use_build_root env then [] else ''DLITE_ROOT or '') @
                    ''DLITE_STORAGE_PLUGIN_DIRS enveronment variable(s) set?''
               else [])
      \<and> sublist name msg
      \<and> (\<forall>p \<in> set (paths info). sublist p msg)
      \<and> (length (paths info) \<le> 1 \<longrightarrow> sublist ''DLITE_STORAGE_PLUGIN_DIRS'' msg)"
proof -
  let ?lines = "concat (map (\<lambda>p. ''    '' @ p @ [CHR 0x0A]) (paths info))"
  let ?hint = "''Is the '' @ (if dlite_use_build_root env then [] else ''DLITE_ROOT or '') @
                    ''DLITE_STORAGE_PLUGIN_DIRS enveronment variable(s) set?''"
  let ?tail = "if length (paths info) \<le> 1 then ?hint else []"
  let ?msg = "''cannot find storage plugin for driver '' @ [CHR 0x22] @ name @ [CHR 0x22] @
              '' in search path:'' @ [CHR 0x0A] @ ?lines @ ?tail"
  from get_failure [OF assms(1) assms(3)]
  obtain s2 info2 where e: "dlite_storage_plugin_get env name s = cannot_find env name s2"
    and i2: "storage_plugin_info s2 = Some info2" and p2: "paths info2 = paths info"
    by blast
  have ne2: "paths info2 \<noteq> []" using assms(2) p2 by simp
  have x: "fst (dlite_storage_plugin_get env name s) = Exit 1 ?msg"
    unfolding e cannot_find_exit [OF i2 ne2] p2 by simp
  have n: "sublist name ?msg"
  proof -
    have "?msg = (''cannot find storage plugin for driver '' @ [CHR 0x22]) @ name @
                 ([CHR 0x22] @ '' in search path:'' @ [CHR 0x0A] @ ?lines @ ?tail)"
      by simp
    then show ?thesis unfolding sublist_def by blast
  qed
  have l: "sublist p ?msg" if "p \<in> set (paths info)" for p
  proof -
    have "?msg = (''cannot find storage plugin for driver '' @ [CHR 0x22] @ name @ [CHR 0x22] @
              '' in search path:'' @ [CHR 0x0A]) @ ?lines @ ?tail"
      by simp
    then show ?thesis
      using sublist_of_line [OF that, of "''cannot find storage plugin for driver '' @ [CHR 0x22] @ name @ [CHR 0x22] @
              '' in search path:'' @ [CHR 0x0A]" "''    ''" "[CHR 0x0A]" ?tail]
      by simp
  qed
  have v: "sublist ''DLITE_STORAGE_PLUGIN_DIRS'' ?msg" if "length (paths info) \<le> 1"
  proof -
    have "?msg = (''cannot find storage plugin for driver '' @ [CHR 0x22] @ name @ [CHR 0x22] @
              '' in search path:'' @ [CHR 0x0A] @ ?lines @
              ''Is the '' @ (if dlite_use_build_root env then [] else ''DLITE_ROOT or '')) @
              ''DLITE_STORAGE_PLUGIN_DIRS'' @ '' enveronment variable(s) set?''"
      using that by simp
    then show ?thesis unfolding sublist_def by blast
  qed
  from x n l v show ?thesis by blast
qed

theorem cannot_find_message_witness:
  "get_storage_plugin_info demo_env demo_loaded =
     (Some \<lparr>paths = [''/build/plugins''], apis = [(''json'', 1)]\<rparr>, demo_loaded)
   \<and> paths \<lparr>paths = [''/build/plugins''], apis = [(''json'', 1 :: nat)]\<rparr> \<noteq> []
   \<and> (\<forall>a. fst (dlite_storage_plugin_get demo_env ''hdf5'' demo_loaded) \<noteq> Return a)
   \<and> fst (dlite_storage_plugin_get demo_env ''hdf5'' demo_loaded) =
       Exit 1 (''cannot find storage plugin for driver '' @ [CHR 0x22] @ ''hdf5'' @ [CHR 0x22] @
               '' in search path:'' @ [CHR 0x0A] @ ''    /build/plugins'' @ [CHR 0x0A] @
               ''Is the DLITE_STORAGE_PLUGIN_DIRS enveronment variable(s) set?'')
   \<and> (\<exists>msg. fst (dlite_storage_plugin_get demo_env ''hdf5'' demo_loaded) = Exit 1 msg
          \<and> sublist ''hdf5'' msg \<and> sublist ''/build/plugins'' msg
          \<and> sublist ''DLITE_STORAGE_PLUGIN_DIRS'' msg)"
proof -
  let ?i = "\<lparr>paths = [''/build/plugins''], apis = [(''json'', 1)]\<rparr> :: nat PluginInfo"
  have g: "get_storage_plugin_info demo_env demo_loaded = (Some ?i, demo_loaded)"
    by (simp add: get_info_present demo_loaded_def)
  have ne: "paths ?i \<noteq> []" by simp
  have f: "\<forall>a. fst (dlite_storage_plugin_get demo_env ''hdf5'' demo_loaded) \<noteq> Return a"
    by (simp add: model_defs demo_defs Let_def)
  from cannot_find_message [OF g ne f]
  have x: "fst (dlite_storage_plugin_get demo_env ''hdf5'' demo_loaded) =
       Exit 1 (''cannot find storage plugin for driver '' @ [CHR 0x22] @ ''hdf5'' @ [CHR 0x22] @
               '' in search path:'' @ [CHR 0x0A] @ ''    /build/plugins'' @ [CHR 0x0A] @
               ''Is the DLITE_STORAGE_PLUGIN_DIRS enveronment variable(s) set?'')"
    by (auto simp: demo_env_def)
  from cannot_find_message [OF g ne f]
  have y: "\<exists>msg. fst (dlite_storage_plugin_get demo_env ''hdf5'' demo_loaded) = Exit 1 msg
          \<and> sublist ''hdf5'' msg \<and> sublist ''/build/plugins'' msg
          \<and> sublist ''DLITE_STORAGE_PLUGIN_DIRS'' msg"
    by auto
  from g ne f x y show ?thesis by (intro conjI) assumption+
qed

text \<open>
  The claim as it was stated promises the hint in every failure message. With two
  directories on the search path the message ends after the list of directories and
  names no environment variable.
\<close>

theorem cannot_find_message_counterexample:
  "fst (dlite_storage_plugin_get (demo_env\<lparr>envvar_dirs := [''/opt/plugins'']\<rparr>) ''hdf5''
          initial_globals) =
     Exit 1 (''cannot find storage plugin for driver '' @ [CHR 0x22] @ ''hdf5'' @ [CHR 0x22] @
             '' in search path:'' @ [CHR 0x0A] @ ''    /opt/plugins'' @ [CHR 0x0A] @
             ''    /build/plugins'' @ [CHR 0x0A])
   \<and> \<not> sublist ''DLITE_STORAGE_PLUGIN_DIRS''
          (''cannot find storage plugin for driver '' @ [CHR 0x22] @ ''hdf5'' @ [CHR 0x22] @
           '' in search path:'' @ [CHR 0x0A] @ ''    /opt/plugins'' @ [CHR 0x0A] @
           ''    /build/plugins'' @ [CHR 0x0A])"
proof (rule conjI)
  show "fst (dlite_storage_plugin_get (demo_env\<lparr>envvar_dirs := [''/opt/plugins'']\<rparr>) ''hdf5''
          initial_globals) =
     Exit 1 (''cannot find storage plugin for driver '' @ [CHR 0x22] @ ''hdf5'' @ [CHR 0x22] @
             '' in search path:'' @ [CHR 0x0A] @ ''    /opt/plugins'' @ [CHR 0x0A] @
             ''    /build/plugins'' @ [CHR 0x0A])"
    by (simp add: model_defs demo_defs Let_def)
  show "\<not> sublist ''DLITE_STORAGE_PLUGIN_DIRS''
          (''cannot find storage plugin for driver '' @ [CHR 0x22] @ ''hdf5'' @ [CHR 0x22] @
           '' in search path:'' @ [CHR 0x0A] @ ''    /opt/plugins'' @ [CHR 0x0A] @
           ''    /build/plugins'' @ [CHR 0x0A])"
    by code_simp
qed

subsection \<open>How a failed resolution ends\<close>

text \<open>
  Claim C6. \<^verbatim>\<open>dlite_storage_plugin_get\<close> returns \<^verbatim>\<open>NULL\<close> if and only if the
  registry cannot be constructed. With a registry, when the name is not in the mapping
  and either no rescan takes place or the name is not in the mapping after the rescan,
  the call does not return: the process exits with status 1 through \<^verbatim>\<open>errx\<close> (the
  search path not being empty). Whatever the call returns with a registry is a
  descriptor found in the mapping, before or after the rescan, so the return of
  \<^verbatim>\<open>NULL\<close> that the comment of the function documents for a missing driver is never
  reached.
\<close>

theorem dlite_storage_plugin_get_exits_when_missing:
  "(fst (dlite_storage_plugin_get env name s) = Return None \<longleftrightarrow>
      fst (get_storage_plugin_info env s) = None)
   \<and> (get_storage_plugin_info env s = (Some info, s1) \<and> paths info \<noteq> [] \<and>
      plugin_get_api info name = None \<and>
      (plugin_get_api (plugin_load_all env info) name = None \<or>
       pathshash env (paths info) = None \<or>
       pathshash env (paths info) = Some (storage_plugin_path_hash s)) \<longrightarrow>
        (\<exists>msg. fst (dlite_storage_plugin_get env name s) = Exit 1 msg))
   \<and> (get_storage_plugin_info env s = (Some info, s1) \<and>
      fst (dlite_storage_plugin_get env name s) = Return a \<longrightarrow>
        (\<exists>api. a = Some api \<and>
           (plugin_get_api info name = Some api \<or>
            plugin_get_api (plugin_load_all env info) name = Some api)))"
proof -
  have A: "fst (dlite_storage_plugin_get env name s) = Return None \<longleftrightarrow>
      fst (get_storage_plugin_info env s) = None"
  proof (cases "get_storage_plugin_info env s")
    case (Pair r s1)
    show ?thesis
    proof (cases r)
      case None
      then show ?thesis using Pair by (simp add: get_without_registry)
    next
      case (Some info)
      have g: "get_storage_plugin_info env s = (Some info, s1)" using Pair Some by simp
      have "fst (dlite_storage_plugin_get env name s) \<noteq> Return None"
      proof
        assume r: "fst (dlite_storage_plugin_get env name s) = Return None"
        have i1: "storage_plugin_info s1 = Some info" using g by (rule get_info_result)
        show False
        proof (cases "plugin_get_api info name")
          case (Some api)
          from r show False
            unfolding get_after_info [OF g] get_hit [OF i1 Some] by simp
        next
          case None
          show False
          proof (cases "\<exists>h. pathshash env (paths info) = Some h \<and>
                            h \<noteq> storage_plugin_path_hash s1")
            case True
            then obtain h where h: "pathshash env (paths info) = Some h"
              and ne: "h \<noteq> storage_plugin_path_hash s1" by blast
            from r cannot_find_no_return [of _ "plugin_load_all env info" env name None]
            show False
              unfolding get_reload [OF g None h ne]
              by (cases "plugin_get_api (plugin_load_all env info) name") simp_all
          next
            case False
            then have sk: "pathshash env (paths info) = None \<or>
                   pathshash env (paths info) = Some (storage_plugin_path_hash s1)"
              by (cases "pathshash env (paths info)") auto
            from r cannot_find_no_return [of _ info env name None] i1
            show False
              unfolding get_skip [OF g None sk] by simp
          qed
        qed
      qed
      then show ?thesis using g by simp
    qed
  qed
  have B: "\<exists>msg. fst (dlite_storage_plugin_get env name s) = Exit 1 msg"
    if g: "get_storage_plugin_info env s = (Some info, s1)" and ne: "paths info \<noteq> []"
      and m: "plugin_get_api info name = None"
      and c: "plugin_get_api (plugin_load_all env info) name = None \<or>
              pathshash env (paths info) = None \<or>
              pathshash env (paths info) = Some (storage_plugin_path_hash s)"
  proof -
    have i1: "storage_plugin_info s1 = Some info" using g by (rule get_info_result)
    have hs: "storage_plugin_path_hash s1 = storage_plugin_path_hash s"
      using g by (rule get_info_hash')
    show ?thesis
    proof (cases "\<exists>h. pathshash env (paths info) = Some h \<and> h \<noteq> storage_plugin_path_hash s1")
      case True
      then obtain h where h: "pathshash env (paths info) = Some h"
        and nh: "h \<noteq> storage_plugin_path_hash s1" by blast
      from c h nh hs have m2: "plugin_get_api (plugin_load_all env info) name = None"
        by auto
      let ?s = "s1\<lparr>storage_plugin_info := Some (plugin_load_all env info),
                 storage_plugin_path_hash := h,
                 calls := calls s1 @ [E_plugin_get_api name, E_pathshash,
                                      E_plugin_load_all, E_plugin_get_api name]\<rparr>"
      have i: "storage_plugin_info ?s = Some (plugin_load_all env info)" by simp
      have n: "paths (plugin_load_all env info) \<noteq> []"
        using ne by (simp add: plugin_load_all_paths)
      show ?thesis
        unfolding get_reload [OF g m h nh] m2 option.case cannot_find_exit [OF i n]
        by simp
    next
      case False
      then have sk: "pathshash env (paths info) = None \<or>
                   pathshash env (paths info) = Some (storage_plugin_path_hash s1)"
        by (cases "pathshash env (paths info)") auto
      let ?s = "s1\<lparr>calls := calls s1 @ [E_plugin_get_api name, E_pathshash]\<rparr>"
      have i: "storage_plugin_info ?s = Some info" using i1 by simp
      show ?thesis
        unfolding get_skip [OF g m sk] cannot_find_exit [OF i ne] by simp
    qed
  qed
  have C: "\<exists>api. a = Some api \<and>
           (plugin_get_api info name = Some api \<or>
            plugin_get_api (plugin_load_all env info) name = Some api)"
    if g: "get_storage_plugin_info env s = (Some info, s1)"
      and r: "fst (dlite_storage_plugin_get env name s) = Return a"
  proof -
    have i1: "storage_plugin_info s1 = Some info" using g by (rule get_info_result)
    show ?thesis
    proof (cases "plugin_get_api info name")
      case (Some api)
      from r have "a = Some api"
        unfolding get_after_info [OF g] get_hit [OF i1 Some] by simp
      with Some show ?thesis by simp
    next
      case None
      show ?thesis
      proof (cases "\<exists>h. pathshash env (paths info) = Some h \<and>
                        h \<noteq> storage_plugin_path_hash s1")
        case True
        then obtain h where h: "pathshash env (paths info) = Some h"
          and ne: "h \<noteq> storage_plugin_path_hash s1" by blast
        from r cannot_find_no_return [of _ "plugin_load_all env info" env name a]
        show ?thesis
          unfolding get_reload [OF g None h ne]
          by (cases "plugin_get_api (plugin_load_all env info) name") auto
      next
        case False
        then have sk: "pathshash env (paths info) = None \<or>
               pathshash env (paths info) = Some (storage_plugin_path_hash s1)"
          by (cases "pathshash env (paths info)") auto
        from r cannot_find_no_return [of _ info env name a] i1
        show ?thesis
          unfolding get_skip [OF g None sk] by simp
      qed
    qed
  qed
  from A B C show ?thesis by blast
qed

theorem dlite_storage_plugin_get_exits_when_missing_witness:
  "fst (get_storage_plugin_info (demo_env\<lparr>alloc_ok := False\<rparr>) initial_globals) = None
   \<and> fst (dlite_storage_plugin_get (demo_env\<lparr>alloc_ok := False\<rparr>) ''json'' initial_globals) =
       Return None
   \<and> get_storage_plugin_info demo_env initial_globals =
        (Some \<lparr>paths = [''/build/plugins''], apis = []\<rparr>,
         \<lparr>storage_plugin_info = Some \<lparr>paths = [''/build/plugins''], apis = []\<rparr>,
          storage_plugin_path_hash = replicate 32 0,
          calls = [E_plugin_info_create, E_atexit, E_add_dll_path]\<rparr>)
   \<and> paths \<lparr>paths = [''/build/plugins''], apis = ([] :: (string \<times> nat) list)\<rparr> \<noteq> []
   \<and> plugin_get_api \<lparr>paths = [''/build/plugins''], apis = []\<rparr> ''hdf5'' = (None :: nat option)
   \<and> plugin_get_api (plugin_load_all demo_env \<lparr>paths = [''/build/plugins''], apis = []\<rparr>)
        ''hdf5'' = None
   \<and> (\<exists>msg. fst (dlite_storage_plugin_get demo_env ''hdf5'' initial_globals) = Exit 1 msg)
   \<and> fst (dlite_storage_plugin_get demo_env ''json'' initial_globals) = Return (Some 1)
   \<and> plugin_get_api (plugin_load_all demo_env \<lparr>paths = [''/build/plugins''], apis = []\<rparr>)
        ''json'' = Some 1"
proof -
  let ?i0 = "\<lparr>paths = [''/build/plugins''], apis = []\<rparr> :: nat PluginInfo"
  let ?s1 = "\<lparr>storage_plugin_info = Some ?i0, storage_plugin_path_hash = replicate 32 0,
          calls = [E_plugin_info_create, E_atexit, E_add_dll_path]\<rparr> :: nat globals"
  note t = dlite_storage_plugin_get_exits_when_missing
  have n: "fst (get_storage_plugin_info (demo_env\<lparr>alloc_ok := False\<rparr>)
                 (initial_globals :: nat globals)) = None"
    by (simp add: get_info_absent initial_globals_def)
  have r: "fst (dlite_storage_plugin_get (demo_env\<lparr>alloc_ok := False\<rparr>) ''json''
                 (initial_globals :: nat globals)) = Return None"
    using t [THEN conjunct1, THEN iffD2, OF n] .
  have g: "get_storage_plugin_info demo_env initial_globals = (Some ?i0, ?s1)"
    by (simp add: get_storage_plugin_info_def plugin_info_create_def log_call_def
        plugin_path_extend_def demo_env_def initial_globals_def Let_def)
  have ne: "paths ?i0 \<noteq> []" by simp
  have m: "plugin_get_api ?i0 ''hdf5'' = None"
    by (simp add: plugin_get_api_def)
  have m2: "plugin_get_api (plugin_load_all demo_env ?i0) ''hdf5'' = None"
    by (simp add: plugin_get_api_def plugin_load_all_def scan_files_def demo_env_def)
  have x: "\<exists>msg. fst (dlite_storage_plugin_get demo_env ''hdf5'' initial_globals) = Exit 1 msg"
    using t [THEN conjunct2, THEN conjunct1, THEN mp, OF conjI, OF g conjI, OF ne conjI,
             OF m disjI1, OF m2] .
  have j: "fst (dlite_storage_plugin_get demo_env ''json'' initial_globals) = Return (Some 1)"
    by (simp add: demo_loaded_reached)
  have k: "plugin_get_api (plugin_load_all demo_env ?i0) ''json'' = Some 1"
    using t [THEN conjunct2, THEN conjunct2, THEN mp, OF conjI, OF g j] m
    by (auto simp: plugin_get_api_def)
  from n r g ne m m2 x j k show ?thesis by (intro conjI) assumption+
qed

subsection \<open>Lazy initialisation of the registry\<close>

text \<open>
  Claim C7. \<^verbatim>\<open>get_storage_plugin_info\<close> initialises lazily and is idempotent. While
  there is no registry and the allocation succeeds, a call constructs the registry with
  no entry and with the search path seeded from the environment variable followed by
  the default directories of the active mode (build tree or installation prefix),
  registers the exit hook once, and stores and returns the registry. A call that finds
  a registry returns it and changes nothing, so every call after a successful one, under
  whatever environment, returns the same registry without constructing or registering
  anything. The number of registered exit hooks grows by one in the constructing call
  and in no other. The call fails exactly when there is no registry and the allocation
  fails. Over a whole run, whichever of the functions modelled above a client calls in
  a fresh process, and in whatever order, the exit hook has been registered once if
  there is a registry and not at all if there is none.
\<close>

theorem get_storage_plugin_info_lazy_idempotent:
  "(storage_plugin_info s = None \<and> alloc_ok env \<longrightarrow>
      (let seeded = \<lparr>paths = envvar_dirs env @
                         (if dlite_use_build_root env then dlite_STORAGE_PLUGINS env
                          else map (under_prefix env (dlite_root_get env))
                                 (DLITE_STORAGE_PLUGIN_DIRS env)),
                      apis = []\<rparr>
       in get_storage_plugin_info env s =
            (Some seeded,
             s\<lparr>storage_plugin_info := Some seeded,
               calls := calls s @ [E_plugin_info_create, E_atexit, E_add_dll_path]\<rparr>)))
   \<and> (storage_plugin_info s = Some info \<longrightarrow> get_storage_plugin_info env s = (Some info, s))
   \<and> (\<forall>r s1 env2. get_storage_plugin_info env s = (Some r, s1) \<longrightarrow>
          get_storage_plugin_info env2 s1 = (Some r, s1))
   \<and> atexit_hooks (snd (get_storage_plugin_info env s)) =
       atexit_hooks s + (if storage_plugin_info s = None \<and> alloc_ok env then 1 else 0)
   \<and> (fst (get_storage_plugin_info env s) = None \<longleftrightarrow>
        storage_plugin_info s = None \<and> \<not> alloc_ok env)
   \<and> atexit_hooks (run cs initial_globals) =
       (if storage_plugin_info (run cs initial_globals) = None then 0 else 1)"
proof (intro conjI)
  show "storage_plugin_info s = None \<and> alloc_ok env \<longrightarrow>
      (let seeded = \<lparr>paths = envvar_dirs env @
                         (if dlite_use_build_root env then dlite_STORAGE_PLUGINS env
                          else map (under_prefix env (dlite_root_get env))
                                 (DLITE_STORAGE_PLUGIN_DIRS env)),
                      apis = []\<rparr>
       in get_storage_plugin_info env s =
            (Some seeded,
             s\<lparr>storage_plugin_info := Some seeded,
               calls := calls s @ [E_plugin_info_create, E_atexit, E_add_dll_path]\<rparr>))"
    by (simp add: get_storage_plugin_info_def plugin_info_create_def log_call_def Let_def
        plugin_path_extend_def plugin_path_extend_prefix_def)
  show "storage_plugin_info s = Some info \<longrightarrow> get_storage_plugin_info env s = (Some info, s)"
    by (simp add: get_info_present)
  show "\<forall>r s1 env2. get_storage_plugin_info env s = (Some r, s1) \<longrightarrow>
          get_storage_plugin_info env2 s1 = (Some r, s1)"
    using get_info_result get_info_present by blast
  show "atexit_hooks (snd (get_storage_plugin_info env s)) =
       atexit_hooks s + (if storage_plugin_info s = None \<and> alloc_ok env then 1 else 0)"
    by (auto simp: get_storage_plugin_info_def plugin_info_create_def log_call_def Let_def
        atexit_hooks_def split: option.splits)
  show "fst (get_storage_plugin_info env s) = None \<longleftrightarrow>
        storage_plugin_info s = None \<and> \<not> alloc_ok env"
    by (rule get_info_absent)
  show "atexit_hooks (run cs initial_globals) =
       (if storage_plugin_info (run cs initial_globals) = None then 0 else 1)"
    by (rule hook_registered_once)
qed

theorem get_storage_plugin_info_lazy_idempotent_witness:
  "storage_plugin_info (initial_globals :: nat globals) = None \<and> alloc_ok demo_env
   \<and> get_storage_plugin_info demo_env initial_globals =
       (Some \<lparr>paths = [''/build/plugins''], apis = []\<rparr>,
        \<lparr>storage_plugin_info = Some \<lparr>paths = [''/build/plugins''], apis = []\<rparr>,
         storage_plugin_path_hash = replicate 32 0,
         calls = [E_plugin_info_create, E_atexit, E_add_dll_path]\<rparr>)
   \<and> storage_plugin_info demo_loaded =
       Some \<lparr>paths = [''/build/plugins''], apis = [(''json'', 1)]\<rparr>
   \<and> get_storage_plugin_info (demo_env\<lparr>alloc_ok := False\<rparr>) demo_loaded =
       (Some \<lparr>paths = [''/build/plugins''], apis = [(''json'', 1)]\<rparr>, demo_loaded)
   \<and> get_storage_plugin_info (demo_env\<lparr>alloc_ok := False\<rparr>)
         \<lparr>storage_plugin_info = Some \<lparr>paths = [''/build/plugins''], apis = []\<rparr>,
          storage_plugin_path_hash = replicate 32 0,
          calls = [E_plugin_info_create, E_atexit, E_add_dll_path]\<rparr> =
       (Some \<lparr>paths = [''/build/plugins''], apis = ([] :: (string \<times> nat) list)\<rparr>,
        \<lparr>storage_plugin_info = Some \<lparr>paths = [''/build/plugins''], apis = []\<rparr>,
         storage_plugin_path_hash = replicate 32 0,
         calls = [E_plugin_info_create, E_atexit, E_add_dll_path]\<rparr>)
   \<and> atexit_hooks (snd (get_storage_plugin_info demo_env (initial_globals :: nat globals))) = 1
   \<and> atexit_hooks (snd (get_storage_plugin_info demo_env demo_loaded)) = 1
   \<and> atexit_hooks (run [(demo_env, Get ''json''), (demo_env, Path_append ''/extra''),
                         (demo_env, Get ''json''), (demo_env, Unload_all),
                         (demo_env, Load_all)] initial_globals) = 1"
proof -
  have h: "storage_plugin_info (initial_globals :: nat globals) = None \<and> alloc_ok demo_env"
    by (simp add: initial_globals_def demo_env_def)
  have i: "storage_plugin_info demo_loaded =
             Some \<lparr>paths = [''/build/plugins''], apis = [(''json'', 1)]\<rparr>"
    by (simp add: demo_loaded_def)
  have a: "get_storage_plugin_info demo_env initial_globals =
       (Some \<lparr>paths = [''/build/plugins''], apis = []\<rparr>,
        \<lparr>storage_plugin_info = Some \<lparr>paths = [''/build/plugins''], apis = []\<rparr>,
         storage_plugin_path_hash = replicate 32 0,
         calls = [E_plugin_info_create, E_atexit, E_add_dll_path]\<rparr>)"
    using get_storage_plugin_info_lazy_idempotent [THEN conjunct1, THEN mp, OF h]
    by (simp add: demo_env_def initial_globals_def Let_def)
  have b: "get_storage_plugin_info (demo_env\<lparr>alloc_ok := False\<rparr>) demo_loaded =
       (Some \<lparr>paths = [''/build/plugins''], apis = [(''json'', 1)]\<rparr>, demo_loaded)"
    using get_storage_plugin_info_lazy_idempotent
            [THEN conjunct2, THEN conjunct1, THEN mp, OF i] .
  have c: "atexit_hooks (snd (get_storage_plugin_info demo_env (initial_globals :: nat globals))) = 1"
    using get_storage_plugin_info_lazy_idempotent
            [THEN conjunct2, THEN conjunct2, THEN conjunct2, THEN conjunct1,
             of demo_env "initial_globals :: nat globals"] h
    by (simp add: atexit_hooks_def initial_globals_def)
  have d: "atexit_hooks (snd (get_storage_plugin_info demo_env demo_loaded)) = 1"
    using get_storage_plugin_info_lazy_idempotent
            [THEN conjunct2, THEN conjunct2, THEN conjunct2, THEN conjunct1,
             of demo_env demo_loaded] i
    by (simp add: atexit_hooks_def demo_loaded_def)
  have e: "get_storage_plugin_info (demo_env\<lparr>alloc_ok := False\<rparr>)
         \<lparr>storage_plugin_info = Some \<lparr>paths = [''/build/plugins''], apis = []\<rparr>,
          storage_plugin_path_hash = replicate 32 0,
          calls = [E_plugin_info_create, E_atexit, E_add_dll_path]\<rparr> =
       (Some \<lparr>paths = [''/build/plugins''], apis = ([] :: (string \<times> nat) list)\<rparr>,
        \<lparr>storage_plugin_info = Some \<lparr>paths = [''/build/plugins''], apis = []\<rparr>,
         storage_plugin_path_hash = replicate 32 0,
         calls = [E_plugin_info_create, E_atexit, E_add_dll_path]\<rparr>)"
    using get_storage_plugin_info_lazy_idempotent
            [THEN conjunct2, THEN conjunct2, THEN conjunct1, THEN spec, THEN spec, THEN spec,
             THEN mp, OF a] .
  have r: "storage_plugin_info
             (run [(demo_env, Get ''json''), (demo_env, Path_append ''/extra''),
                   (demo_env, Get ''json''), (demo_env, Unload_all),
                   (demo_env, Load_all)] initial_globals) \<noteq> None"
    by (simp add: model_defs demo_defs Let_def)
  have f: "atexit_hooks (run [(demo_env, Get ''json''), (demo_env, Path_append ''/extra''),
                         (demo_env, Get ''json''), (demo_env, Unload_all),
                         (demo_env, Load_all)] initial_globals) = 1"
    using get_storage_plugin_info_lazy_idempotent
            [THEN conjunct2, THEN conjunct2, THEN conjunct2, THEN conjunct2, THEN conjunct2,
             of "[(demo_env, Get ''json''), (demo_env, Path_append ''/extra''),
                  (demo_env, Get ''json''), (demo_env, Unload_all), (demo_env, Load_all)]"] r
    by simp
  from h [THEN conjunct1] h [THEN conjunct2] a i b e c d f
  show ?thesis by (intro conjI) assumption+
qed

subsection \<open>Insertion into the search path\<close>

text \<open>
  Claim C8. With a registry whose search path has length \<open>L\<close>,
  \<^verbatim>\<open>dlite_storage_plugin_path_insert\<close> obeys clipped negative indexing: index
  \<open>-1\<close> appends the path and returns \<open>L\<close>; index \<open>L + 100\<close> is clipped, appends and
  returns \<open>L\<close>; index \<open>-(L + 100)\<close> is clipped, puts the path first and returns \<open>0\<close>;
  and for every index the returned value is a position between \<open>0\<close> and \<open>L\<close> at which
  the new path then stands, the other paths keeping their order around it.
\<close>

theorem dlite_storage_plugin_path_insert_clipped:
  assumes "get_storage_plugin_info env s = (Some info, s1)"
  shows "dlite_storage_plugin_path_insert env (-1) p s =
           (int (length (paths info)),
            s1\<lparr>storage_plugin_info := Some (info\<lparr>paths := paths info @ [p]\<rparr>)\<rparr>)
       \<and> dlite_storage_plugin_path_insert env (int (length (paths info)) + 100) p s =
           (int (length (paths info)),
            s1\<lparr>storage_plugin_info := Some (info\<lparr>paths := paths info @ [p]\<rparr>)\<rparr>)
       \<and> dlite_storage_plugin_path_insert env (- (int (length (paths info)) + 100)) p s =
           (0, s1\<lparr>storage_plugin_info := Some (info\<lparr>paths := p # paths info\<rparr>)\<rparr>)
       \<and> (\<exists>j \<le> length (paths info).
             dlite_storage_plugin_path_insert env n p s =
               (int j, s1\<lparr>storage_plugin_info :=
                           Some (info\<lparr>paths := take j (paths info) @ p # drop j (paths info)\<rparr>)\<rparr>)
             \<and> (take j (paths info) @ p # drop j (paths info)) ! j = p)"
proof (intro conjI)
  show "dlite_storage_plugin_path_insert env (-1) p s =
           (int (length (paths info)),
            s1\<lparr>storage_plugin_info := Some (info\<lparr>paths := paths info @ [p]\<rparr>)\<rparr>)"
    unfolding path_insert_at [OF assms] clip_index_minus1 by simp
  show "dlite_storage_plugin_path_insert env (int (length (paths info)) + 100) p s =
           (int (length (paths info)),
            s1\<lparr>storage_plugin_info := Some (info\<lparr>paths := paths info @ [p]\<rparr>)\<rparr>)"
    unfolding path_insert_at [OF assms] clip_index_high by simp
  show "dlite_storage_plugin_path_insert env (- (int (length (paths info)) + 100)) p s =
           (0, s1\<lparr>storage_plugin_info := Some (info\<lparr>paths := p # paths info\<rparr>)\<rparr>)"
    unfolding path_insert_at [OF assms] clip_index_low by simp
  show "\<exists>j \<le> length (paths info).
             dlite_storage_plugin_path_insert env n p s =
               (int j, s1\<lparr>storage_plugin_info :=
                           Some (info\<lparr>paths := take j (paths info) @ p # drop j (paths info)\<rparr>)\<rparr>)
             \<and> (take j (paths info) @ p # drop j (paths info)) ! j = p"
    unfolding path_insert_at [OF assms]
    by (rule exI [of _ "clip_index (length (paths info)) n"])
       (simp add: clip_index_bound nth_append)
qed

theorem dlite_storage_plugin_path_insert_clipped_witness:
  "get_storage_plugin_info demo_env demo_loaded =
     (Some \<lparr>paths = [''/build/plugins''], apis = [(''json'', 1)]\<rparr>, demo_loaded)
   \<and> dlite_storage_plugin_path_insert demo_env (-1) ''/extra'' demo_loaded =
       (1, demo_loaded\<lparr>storage_plugin_info :=
             Some \<lparr>paths = [''/build/plugins'', ''/extra''], apis = [(''json'', 1)]\<rparr>\<rparr>)
   \<and> dlite_storage_plugin_path_insert demo_env 101 ''/extra'' demo_loaded =
       (1, demo_loaded\<lparr>storage_plugin_info :=
             Some \<lparr>paths = [''/build/plugins'', ''/extra''], apis = [(''json'', 1)]\<rparr>\<rparr>)
   \<and> dlite_storage_plugin_path_insert demo_env (-101) ''/extra'' demo_loaded =
       (0, demo_loaded\<lparr>storage_plugin_info :=
             Some \<lparr>paths = [''/extra'', ''/build/plugins''], apis = [(''json'', 1)]\<rparr>\<rparr>)"
proof -
  have g: "get_storage_plugin_info demo_env demo_loaded =
     (Some \<lparr>paths = [''/build/plugins''], apis = [(''json'', 1)]\<rparr>, demo_loaded)"
    by (simp add: get_info_present demo_loaded_def)
  show ?thesis
    using dlite_storage_plugin_path_insert_clipped [OF g, of "''/extra''"] g
    by simp
qed

subsection \<open>The full rescan\<close>

text \<open>
  Claim C9. \<^verbatim>\<open>dlite_storage_plugin_load_all\<close> returns non-zero if and only if there
  is no registry. With a registry it returns 0 whatever happens to the files: the table
  of plugins after the call is the one that the scan yields when the files whose probe
  fails are left out, and every file of the scan whose probe succeeds has the name it
  reports registered afterwards, with the descriptor of a file of the scan that reports
  this name.
\<close>

theorem dlite_storage_plugin_load_all_failures:
  "(fst (dlite_storage_plugin_load_all env s) \<noteq> 0 \<longleftrightarrow>
      fst (get_storage_plugin_info env s) = None)
   \<and> (get_storage_plugin_info env s = (Some info, s1) \<longrightarrow>
        dlite_storage_plugin_load_all env s =
          (0, s1\<lparr>storage_plugin_info :=
                   Some (info\<lparr>apis := load_files env
                           (filter (\<lambda>f. probe env f \<noteq> None) (scan_files env (paths info)))
                           (apis info)\<rparr>),
                 calls := calls s1 @ [E_plugin_load_all]\<rparr>)
        \<and> (\<forall>f name api.
              f \<in> set (scan_files env (paths info)) \<and> probe env f = Some (name, api) \<longrightarrow>
              (\<exists>f' api' info1.
                  f' \<in> set (scan_files env (paths info)) \<and> probe env f' = Some (name, api') \<and>
                  storage_plugin_info (snd (dlite_storage_plugin_load_all env s)) = Some info1 \<and>
                  plugin_get_api info1 name = Some api')))"
proof (intro conjI impI allI)
  show "fst (dlite_storage_plugin_load_all env s) \<noteq> 0 \<longleftrightarrow>
      fst (get_storage_plugin_info env s) = None"
    by (auto simp: dlite_storage_plugin_load_all_def split: prod.splits option.splits)
next
  assume g: "get_storage_plugin_info env s = (Some info, s1)"
  show "dlite_storage_plugin_load_all env s =
          (0, s1\<lparr>storage_plugin_info :=
                   Some (info\<lparr>apis := load_files env
                           (filter (\<lambda>f. probe env f \<noteq> None) (scan_files env (paths info)))
                           (apis info)\<rparr>),
                 calls := calls s1 @ [E_plugin_load_all]\<rparr>)"
    unfolding load_all_result [OF g] plugin_load_all_def
    using load_files_skips_failures [of env "scan_files env (paths info)" "apis info"]
    by simp
next
  fix f name api
  assume g: "get_storage_plugin_info env s = (Some info, s1)"
    and f: "f \<in> set (scan_files env (paths info)) \<and> probe env f = Some (name, api)"
  from f load_files_registers [of f "scan_files env (paths info)" env name api "apis info"]
  obtain f' api' where f': "f' \<in> set (scan_files env (paths info))"
    and p': "probe env f' = Some (name, api')"
    and m: "map_of (load_files env (scan_files env (paths info)) (apis info)) name = Some api'"
    by blast
  have "storage_plugin_info (snd (dlite_storage_plugin_load_all env s)) =
          Some (plugin_load_all env info)"
    unfolding load_all_result [OF g] by simp
  moreover have "plugin_get_api (plugin_load_all env info) name = Some api'"
    using m by (simp add: plugin_get_api_def plugin_load_all_def)
  ultimately show "\<exists>f' api' info1.
                  f' \<in> set (scan_files env (paths info)) \<and> probe env f' = Some (name, api') \<and>
                  storage_plugin_info (snd (dlite_storage_plugin_load_all env s)) = Some info1 \<and>
                  plugin_get_api info1 name = Some api'"
    using f' p' by blast
qed

theorem dlite_storage_plugin_load_all_failures_witness:
  "get_storage_plugin_info demo_env initial_globals =
        (Some \<lparr>paths = [''/build/plugins''], apis = []\<rparr>,
         \<lparr>storage_plugin_info = Some \<lparr>paths = [''/build/plugins''], apis = []\<rparr>,
          storage_plugin_path_hash = replicate 32 0,
          calls = [E_plugin_info_create, E_atexit, E_add_dll_path]\<rparr>)
   \<and> scan_files demo_env [''/build/plugins''] =
        [''/build/plugins/README.so'', ''/build/plugins/json.so'']
   \<and> probe demo_env ''/build/plugins/README.so'' = None
   \<and> probe demo_env ''/build/plugins/json.so'' = Some (''json'', 1)
   \<and> dlite_storage_plugin_load_all demo_env initial_globals = (0, demo_scanned)
   \<and> ''/build/plugins/json.so'' \<in> set (scan_files demo_env [''/build/plugins''])
   \<and> (\<exists>f' api' info1.
          f' \<in> set (scan_files demo_env [''/build/plugins'']) \<and>
          probe demo_env f' = Some (''json'', api') \<and>
          storage_plugin_info (snd (dlite_storage_plugin_load_all demo_env initial_globals)) =
            Some info1 \<and>
          plugin_get_api info1 ''json'' = Some api')
   \<and> fst (dlite_storage_plugin_load_all demo_env (initial_globals :: nat globals)) = 0
   \<and> fst (get_storage_plugin_info demo_env (initial_globals :: nat globals)) \<noteq> None"
proof -
  let ?i0 = "\<lparr>paths = [''/build/plugins''], apis = []\<rparr> :: nat PluginInfo"
  let ?s1 = "\<lparr>storage_plugin_info = Some ?i0, storage_plugin_path_hash = replicate 32 0,
          calls = [E_plugin_info_create, E_atexit, E_add_dll_path]\<rparr> :: nat globals"
  have g: "get_storage_plugin_info demo_env initial_globals = (Some ?i0, ?s1)"
    by (simp add: get_storage_plugin_info_def plugin_info_create_def log_call_def
        plugin_path_extend_def demo_env_def initial_globals_def Let_def)
  have sc: "scan_files demo_env [''/build/plugins''] =
        [''/build/plugins/README.so'', ''/build/plugins/json.so'']"
    by (simp add: scan_files_def demo_env_def)
  have p1: "probe demo_env ''/build/plugins/README.so'' = None"
    by (simp add: demo_env_def)
  have p2: "probe demo_env ''/build/plugins/json.so'' = Some (''json'', 1)"
    by (simp add: demo_env_def)
  have l: "dlite_storage_plugin_load_all demo_env initial_globals = (0, demo_scanned)"
    using dlite_storage_plugin_load_all_failures
            [THEN conjunct2, THEN mp, OF g, THEN conjunct1]
    by (simp add: sc p1 p2 demo_scanned_def)
  have f: "''/build/plugins/json.so'' \<in> set (scan_files demo_env (paths ?i0)) \<and>
           probe demo_env ''/build/plugins/json.so'' = Some (''json'', 1)"
    by (simp add: sc p2)
  have m: "''/build/plugins/json.so'' \<in> set (scan_files demo_env [''/build/plugins''])"
    by (simp add: sc)
  have r: "\<exists>f' api' info1.
          f' \<in> set (scan_files demo_env [''/build/plugins'']) \<and>
          probe demo_env f' = Some (''json'', api') \<and>
          storage_plugin_info (snd (dlite_storage_plugin_load_all demo_env initial_globals)) =
            Some info1 \<and>
          plugin_get_api info1 ''json'' = Some api'"
    using dlite_storage_plugin_load_all_failures
            [THEN conjunct2, THEN mp, OF g, THEN conjunct2, THEN spec, THEN spec, THEN spec,
             THEN mp, OF f]
    by simp
  have z: "fst (dlite_storage_plugin_load_all demo_env (initial_globals :: nat globals)) = 0"
    by (simp add: l)
  have nz: "fst (get_storage_plugin_info demo_env (initial_globals :: nat globals)) \<noteq> None"
    using dlite_storage_plugin_load_all_failures
            [THEN conjunct1, of demo_env "initial_globals :: nat globals"] z
    by simp
  from g sc p1 p2 l m r z nz show ?thesis by (intro conjI) assumption+
qed

subsection \<open>The return value without a registry\<close>

text \<open>
  Claim C10. When the registry cannot be constructed,
  \<^verbatim>\<open>dlite_storage_plugin_path_insert\<close>, \<^verbatim>\<open>dlite_storage_plugin_path_append\<close> and
  \<^verbatim>\<open>dlite_storage_plugin_path_appendn\<close> each return 1, not the -1 that their comments
  announce for errors; and 1 is also what each of them returns on success for some
  input, namely when the new path comes to stand at index 1, so the two outcomes cannot
  be told apart by the return value.
\<close>

theorem path_operations_error_return_collides:
  "(fst (get_storage_plugin_info env s) = None \<longrightarrow>
      fst (dlite_storage_plugin_path_insert env n path s) = 1
    \<and> fst (dlite_storage_plugin_path_append env path s) = 1
    \<and> fst (dlite_storage_plugin_path_appendn env path k s) = 1)
  \<and> (\<exists>(env2 :: nat env) s2 p info2.
         fst (get_storage_plugin_info env2 s2) = Some info2
       \<and> dlite_storage_plugin_path_insert env2 1 p s2 =
           (1, s2\<lparr>storage_plugin_info := Some (info2\<lparr>paths := take 1 (paths info2) @ p # drop 1 (paths info2)\<rparr>)\<rparr>)
       \<and> dlite_storage_plugin_path_append env2 p s2 =
           (1, s2\<lparr>storage_plugin_info := Some (info2\<lparr>paths := paths info2 @ [p]\<rparr>)\<rparr>)
       \<and> dlite_storage_plugin_path_appendn env2 p (length p) s2 =
           (1, s2\<lparr>storage_plugin_info := Some (info2\<lparr>paths := paths info2 @ [p]\<rparr>)\<rparr>))"
proof -
  have a: "fst (get_storage_plugin_info env s) = None \<longrightarrow>
      fst (dlite_storage_plugin_path_insert env n path s) = 1
    \<and> fst (dlite_storage_plugin_path_append env path s) = 1
    \<and> fst (dlite_storage_plugin_path_appendn env path k s) = 1"
    by (auto simp: dlite_storage_plugin_path_insert_def dlite_storage_plugin_path_append_def
        dlite_storage_plugin_path_appendn_def split: prod.splits option.splits)
  let ?i = "\<lparr>paths = [''/build/plugins''], apis = [(''json'', 1)]\<rparr> :: nat PluginInfo"
  have g: "get_storage_plugin_info demo_env demo_loaded = (Some ?i, demo_loaded)"
    by (simp add: get_info_present demo_loaded_def)
  have b: "fst (get_storage_plugin_info demo_env demo_loaded) = Some ?i
       \<and> dlite_storage_plugin_path_insert demo_env 1 ''/extra'' demo_loaded =
           (1, demo_loaded\<lparr>storage_plugin_info := Some (?i\<lparr>paths := take 1 (paths ?i) @ ''/extra'' # drop 1 (paths ?i)\<rparr>)\<rparr>)
       \<and> dlite_storage_plugin_path_append demo_env ''/extra'' demo_loaded =
           (1, demo_loaded\<lparr>storage_plugin_info := Some (?i\<lparr>paths := paths ?i @ [''/extra'']\<rparr>)\<rparr>)
       \<and> dlite_storage_plugin_path_appendn demo_env ''/extra'' (length ''/extra'') demo_loaded =
           (1, demo_loaded\<lparr>storage_plugin_info := Some (?i\<lparr>paths := paths ?i @ [''/extra'']\<rparr>)\<rparr>)"
    by (simp add: g dlite_storage_plugin_path_insert_def dlite_storage_plugin_path_append_def
        dlite_storage_plugin_path_appendn_def plugin_path_insert_def plugin_path_append_def
        plugin_path_appendn_def clip_index_def Let_def)
  from b have "\<exists>(env2 :: nat env) s2 p info2.
         fst (get_storage_plugin_info env2 s2) = Some info2
       \<and> dlite_storage_plugin_path_insert env2 1 p s2 =
           (1, s2\<lparr>storage_plugin_info := Some (info2\<lparr>paths := take 1 (paths info2) @ p # drop 1 (paths info2)\<rparr>)\<rparr>)
       \<and> dlite_storage_plugin_path_append env2 p s2 =
           (1, s2\<lparr>storage_plugin_info := Some (info2\<lparr>paths := paths info2 @ [p]\<rparr>)\<rparr>)
       \<and> dlite_storage_plugin_path_appendn env2 p (length p) s2 =
           (1, s2\<lparr>storage_plugin_info := Some (info2\<lparr>paths := paths info2 @ [p]\<rparr>)\<rparr>)"
    by (intro exI)
  with a show ?thesis by (rule conjI)
qed

theorem path_operations_error_return_collides_witness:
  "fst (get_storage_plugin_info (demo_env\<lparr>alloc_ok := False\<rparr>) initial_globals) = None
   \<and> fst (dlite_storage_plugin_path_insert (demo_env\<lparr>alloc_ok := False\<rparr>) 0 ''/extra'' initial_globals) = 1
   \<and> fst (dlite_storage_plugin_path_append (demo_env\<lparr>alloc_ok := False\<rparr>) ''/extra'' initial_globals) = 1
   \<and> fst (dlite_storage_plugin_path_appendn (demo_env\<lparr>alloc_ok := False\<rparr>) ''/extra'' 3 initial_globals) = 1
   \<and> fst (dlite_storage_plugin_path_insert demo_env 1 ''/extra'' demo_loaded) = 1"
proof -
  have h: "fst (get_storage_plugin_info (demo_env\<lparr>alloc_ok := False\<rparr>) initial_globals) = None"
    by (simp add: get_info_absent initial_globals_def)
  have "fst (dlite_storage_plugin_path_insert demo_env 1 ''/extra'' demo_loaded) = 1"
    by (simp add: model_defs demo_defs Let_def)
  with h path_operations_error_return_collides
         [THEN conjunct1, THEN mp, OF h, of 0 "''/extra''" 3]
  show ?thesis by simp
qed

end
